theory Spec2Isabelle
  imports Complex_Main
begin

section \<open>Numbers\<close>

text \<open>
  The mechanisms of \<^verbatim>\<open>diffprivlib/mechanisms/laplace.py\<close> compute with Python and numpy
  floats. A float is modelled as a real number or one of the three special values of
  IEEE 754: the two infinities and not-a-number. Arithmetic on finite values is exact:
  there is no rounding, no overflow (so \<open>x ** 2\<close> never raises), no underflow and no
  signed zero. Arithmetic that involves a special value, a division by zero or a logarithm
  of a non-positive number follows IEEE 754 as numpy implements it (a warning, never an
  exception).
\<close>

datatype fl = Fin real | PInf | NInf | NaN

instantiation fl :: "{uminus, plus, minus, times, inverse, abs, sgn, ord}"
begin

fun uminus_fl :: "fl \<Rightarrow> fl" where
  "uminus_fl (Fin a) = Fin (- a)"
| "uminus_fl PInf = NInf"
| "uminus_fl NInf = PInf"
| "uminus_fl NaN = NaN"

fun plus_fl :: "fl \<Rightarrow> fl \<Rightarrow> fl" where
  "plus_fl NaN y = NaN"
| "plus_fl x NaN = NaN"
| "plus_fl (Fin a) (Fin b) = Fin (a + b)"
| "plus_fl PInf NInf = NaN"
| "plus_fl NInf PInf = NaN"
| "plus_fl PInf y = PInf"
| "plus_fl x PInf = PInf"
| "plus_fl NInf y = NInf"
| "plus_fl x NInf = NInf"

definition minus_fl :: "fl \<Rightarrow> fl \<Rightarrow> fl" where
  "minus_fl x y = x + (- y)"

fun times_fl :: "fl \<Rightarrow> fl \<Rightarrow> fl" where
  "times_fl NaN y = NaN"
| "times_fl x NaN = NaN"
| "times_fl (Fin a) (Fin b) = Fin (a * b)"
| "times_fl (Fin a) PInf = (if a = 0 then NaN else if 0 < a then PInf else NInf)"
| "times_fl (Fin a) NInf = (if a = 0 then NaN else if 0 < a then NInf else PInf)"
| "times_fl PInf (Fin b) = (if b = 0 then NaN else if 0 < b then PInf else NInf)"
| "times_fl NInf (Fin b) = (if b = 0 then NaN else if 0 < b then NInf else PInf)"
| "times_fl PInf PInf = PInf"
| "times_fl PInf NInf = NInf"
| "times_fl NInf PInf = NInf"
| "times_fl NInf NInf = PInf"

text \<open>
  \<open>x / y\<close> is numpy's division: a zero divisor gives an infinity or not-a-number.
  Python's own division of two plain floats raises instead; that is \<open>py_div\<close> below.
\<close>

fun divide_fl :: "fl \<Rightarrow> fl \<Rightarrow> fl" where
  "divide_fl NaN y = NaN"
| "divide_fl x NaN = NaN"
| "divide_fl (Fin a) (Fin b) =
     (if b = 0 then (if a = 0 then NaN else if 0 < a then PInf else NInf) else Fin (a / b))"
| "divide_fl (Fin a) PInf = Fin 0"
| "divide_fl (Fin a) NInf = Fin 0"
| "divide_fl PInf (Fin b) = (if 0 \<le> b then PInf else NInf)"
| "divide_fl NInf (Fin b) = (if 0 \<le> b then NInf else PInf)"
| "divide_fl PInf y = NaN"
| "divide_fl NInf y = NaN"

definition inverse_fl :: "fl \<Rightarrow> fl" where
  "inverse_fl x = divide (Fin 1) x"

fun abs_fl :: "fl \<Rightarrow> fl" where
  "abs_fl (Fin a) = Fin \<bar>a\<bar>"
| "abs_fl PInf = PInf"
| "abs_fl NInf = PInf"
| "abs_fl NaN = NaN"

fun sgn_fl :: "fl \<Rightarrow> fl" where
  "sgn_fl (Fin a) = Fin (sgn a)"
| "sgn_fl PInf = Fin 1"
| "sgn_fl NInf = Fin (- 1)"
| "sgn_fl NaN = NaN"

fun less_fl :: "fl \<Rightarrow> fl \<Rightarrow> bool" where
  "less_fl NaN y = False"
| "less_fl x NaN = False"
| "less_fl (Fin a) (Fin b) = (a < b)"
| "less_fl x NInf = False"
| "less_fl PInf y = False"
| "less_fl NInf y = True"
| "less_fl x PInf = True"

fun less_eq_fl :: "fl \<Rightarrow> fl \<Rightarrow> bool" where
  "less_eq_fl NaN y = False"
| "less_eq_fl x NaN = False"
| "less_eq_fl (Fin a) (Fin b) = (a \<le> b)"
| "less_eq_fl NInf y = True"
| "less_eq_fl x PInf = True"
| "less_eq_fl x NInf = False"
| "less_eq_fl PInf y = False"

instance ..

end

text \<open>\<open>x == y\<close> on floats: not-a-number equals nothing, itself included.\<close>

definition fl_eq :: "fl \<Rightarrow> fl \<Rightarrow> bool" where
  "fl_eq x y = (x \<noteq> NaN \<and> x = y)"

text \<open>\<open>np.exp\<close> and \<open>np.log\<close>.\<close>

fun fl_exp :: "fl \<Rightarrow> fl" where
  "fl_exp (Fin a) = Fin (exp a)"
| "fl_exp PInf = PInf"
| "fl_exp NInf = Fin 0"
| "fl_exp NaN = NaN"

fun fl_log :: "fl \<Rightarrow> fl" where
  "fl_log (Fin a) = (if 0 < a then Fin (ln a) else if a = 0 then NInf else NaN)"
| "fl_log PInf = PInf"
| "fl_log NInf = NaN"
| "fl_log NaN = NaN"

text \<open>
  Python's \<open>min(a, b)\<close> and \<open>max(a, b)\<close> return the first argument unless the second
  is strictly smaller (larger).
\<close>

definition py_min :: "fl \<Rightarrow> fl \<Rightarrow> fl" where
  "py_min a b = (if b < a then b else a)"

definition py_max :: "fl \<Rightarrow> fl \<Rightarrow> fl" where
  "py_max a b = (if a < b then b else a)"

text \<open>\<open>x ** 2\<close>.\<close>

definition fl_sq :: "fl \<Rightarrow> fl" where
  "fl_sq x = x * x"

section \<open>Python values, exceptions and attributes\<close>

text \<open>
  The value given to \<open>randomise\<close>, \<open>get_bias\<close> or \<open>get_variance\<close> is a float or something
  that is not a number (a string); \<open>isinstance(value, Real)\<close> tells them apart.
\<close>

datatype py_value = Number fl | Str string

fun is_real :: "py_value \<Rightarrow> bool" where
  "is_real (Number x) = True"
| "is_real (Str s) = False"

text \<open>
  The exceptions the module raises, with their messages. A call returns \<open>Inl\<close> of the
  exception it raises or \<open>Inr\<close> of its value.
\<close>

datatype error =
  TypeError string | ValueError string | OverflowError string | ZeroDivisionError

definition bind_err :: "error + 'a \<Rightarrow> ('a \<Rightarrow> error + 'b) \<Rightarrow> error + 'b" where
  "bind_err r f = (case r of Inl e \<Rightarrow> Inl e | Inr x \<Rightarrow> f x)"

text \<open>
  An attribute that is still \<open>None\<close>, or an argument that is not a number, raises a
  \<open>TypeError\<close> when arithmetic reaches it.
\<close>

definition operand :: "fl option \<Rightarrow> error + fl" where
  "operand a = (case a of None \<Rightarrow> Inl (TypeError ''unsupported operand type(s)'')
                | Some x \<Rightarrow> Inr x)"

fun as_float :: "py_value \<Rightarrow> error + fl" where
  "as_float (Number x) = Inr x"
| "as_float (Str s) = Inl (TypeError ''unsupported operand type(s)'')"

text \<open>
  What a caller passes to \<open>set_sensitivity\<close>: a float, a Python int, which has no bound,
  or something that is not a number (a string). \<open>float(x)\<close> keeps a float as it is and
  raises \<open>OverflowError\<close> on an int that rounds to \<open>2 ^ 1024\<close> or beyond; a smaller int
  becomes the float of the same value (rounding is not modelled).
\<close>

datatype py_arg = FloatArg fl | IntArg int | OtherArg string

fun arg_is_real :: "py_arg \<Rightarrow> bool" where
  "arg_is_real (FloatArg x) = True"
| "arg_is_real (IntArg i) = True"
| "arg_is_real (OtherArg s) = False"

fun arg_le_zero :: "py_arg \<Rightarrow> bool" where
  "arg_le_zero (FloatArg x) = (x \<le> Fin 0)"
| "arg_le_zero (IntArg i) = (i \<le> 0)"
| "arg_le_zero (OtherArg s) = False"

fun py_float :: "py_arg \<Rightarrow> error + fl" where
  "py_float (FloatArg x) = Inr x"
| "py_float (IntArg i) =
     (if 2 ^ 1024 - 2 ^ 970 \<le> \<bar>i\<bar> then Inl (OverflowError ''int too large to convert to float'')
      else Inr (Fin (of_int i)))"
| "py_float (OtherArg s) = Inl (ValueError ''could not convert string to float'')"

text \<open>
  Python's \<open>x / y\<close> on two plain floats raises on a zero divisor. The attributes
  \<open>_sensitivity\<close>, \<open>_epsilon\<close>, \<open>_delta\<close>, the bounds, \<open>_shape\<close> and the value are
  plain floats, and a division whose operands are both among them is \<open>py_div\<close>. What
  \<open>np.exp\<close>, \<open>np.log\<close>, \<open>np.sign\<close>, \<open>np.abs\<close> and \<open>_find_scale\<close> return is a numpy float,
  and a division with such an operand is numpy's \<open>/\<close>.
\<close>

definition py_div :: "fl \<Rightarrow> fl \<Rightarrow> error + fl" where
  "py_div x y = (if y = Fin 0 then Inl ZeroDivisionError else Inr (x / y))"

section \<open>The configuration base and the domain mixin\<close>

text \<open>
  \<open>DPMechanism\<close> and \<open>TruncationAndFoldingMachine\<close> are imported by the module
  (\<^verbatim>\<open>from . import DPMechanism, TruncationAndFoldingMachine\<close>) and their code is not part
  of it. Their attributes are the fields the module reads: \<open>_epsilon\<close>, \<open>_delta\<close>,
  \<open>_lower_bound\<close>, \<open>_upper_bound\<close>, each \<open>None\<close> until set.
\<close>

record dp_mechanism =
  self_epsilon :: "fl option"
  self_delta :: "fl option"

text \<open>
  Modelled from the spec: \<open>DPMechanism.check_inputs\<close>, which is not in the module. The
  spec (section 6): "\<open>check_ready(value)\<close> verifying epsilon is set"; (section 7):
  missing required configuration is a "not configured" error.
\<close>

definition dp_check_inputs :: "'a dp_mechanism_scheme \<Rightarrow> py_value \<Rightarrow> error + bool" where
  "dp_check_inputs m value =
     (if self_epsilon m = None then Inl (ValueError ''Epsilon must be set'') else Inr True)"

section \<open>Laplace\<close>

record laplace = dp_mechanism +
  self_sensitivity :: "fl option"

definition laplace_init :: laplace where
  "laplace_init = \<lparr>self_epsilon = None, self_delta = None, self_sensitivity = None\<rparr>"

text \<open>
  \<open>set_sensitivity\<close> returns what the call raises or returns (\<open>self\<close>), and the object
  after the call.
\<close>

definition set_sensitivity ::
  "'a laplace_scheme \<Rightarrow> py_arg \<Rightarrow> (error + 'a laplace_scheme) \<times> 'a laplace_scheme" where
  "set_sensitivity m sensitivity =
     (if \<not> arg_is_real sensitivity then (Inl (TypeError ''Sensitivity must be numeric''), m)
      else if arg_le_zero sensitivity then
        (Inl (ValueError ''Sensitivity must be strictly positive''), m)
      else
        (case py_float sensitivity of
           Inl e \<Rightarrow> (Inl e, m)
         | Inr x \<Rightarrow> (let m' = m\<lparr>self_sensitivity := Some x\<rparr> in (Inr m', m'))))"

definition laplace_check_inputs :: "'a laplace_scheme \<Rightarrow> py_value \<Rightarrow> error + bool" where
  "laplace_check_inputs m value =
     bind_err (dp_check_inputs m value) (\<lambda>_.
       if \<not> is_real value then Inl (TypeError ''Value to be randomised must be a number'')
       else if self_sensitivity m = None then Inl (ValueError ''Sensitivity must be set'')
       else Inr True)"

definition laplace_get_bias :: "'a laplace_scheme \<Rightarrow> py_value \<Rightarrow> error + fl" where
  "laplace_get_bias m value = Inr (Fin 0)"

definition laplace_get_variance :: "'a laplace_scheme \<Rightarrow> py_value \<Rightarrow> error + fl" where
  "laplace_get_variance m value =
     bind_err (laplace_check_inputs m (Number (Fin 0))) (\<lambda>_.
     bind_err (operand (self_sensitivity m)) (\<lambda>sensitivity.
     bind_err (operand (self_epsilon m)) (\<lambda>epsilon.
     bind_err (py_div sensitivity epsilon) (\<lambda>q.
       Inr (Fin 2 * fl_sq q)))))"

text \<open>
  \<open>Laplace.randomise\<close> calls \<open>self.check_inputs\<close>, which a subclass overrides: the
  check is a parameter, and \<open>u\<close> is the draw \<open>random()\<close> returns.
\<close>

definition laplace_randomise_via ::
  "('a laplace_scheme \<Rightarrow> py_value \<Rightarrow> error + bool) \<Rightarrow> 'a laplace_scheme \<Rightarrow> py_value \<Rightarrow> fl
     \<Rightarrow> error + fl" where
  "laplace_randomise_via check_inputs m value u =
     bind_err (check_inputs m value) (\<lambda>_.
     bind_err (operand (self_sensitivity m)) (\<lambda>sensitivity.
     bind_err (operand (self_epsilon m)) (\<lambda>epsilon.
     bind_err (py_div sensitivity epsilon) (\<lambda>scale.
     bind_err (as_float value) (\<lambda>v.
       let unif_rv = u - Fin (1/2)
       in Inr (v - scale * sgn unif_rv * fl_log (Fin 1 - Fin 2 * abs unif_rv)))))))"

definition laplace_randomise :: "'a laplace_scheme \<Rightarrow> py_value \<Rightarrow> fl \<Rightarrow> error + fl" where
  "laplace_randomise = laplace_randomise_via laplace_check_inputs"

section \<open>LaplaceTruncated and LaplaceFolded\<close>

record laplace_tf = laplace +
  self_lower_bound :: "fl option"
  self_upper_bound :: "fl option"

text \<open>
  Modelled from the spec: \<open>TruncationAndFoldingMachine.check_inputs\<close>, which is not in
  the module. The spec (section 4.2): "\<open>check_ready(value)\<close>: requires bounds set".
\<close>

definition tf_check_inputs :: "'a laplace_tf_scheme \<Rightarrow> py_value \<Rightarrow> error + bool" where
  "tf_check_inputs m value =
     (if self_lower_bound m = None \<or> self_upper_bound m = None
      then Inl (ValueError ''Upper and lower bounds must be set'') else Inr True)"

text \<open>The check of both LaplaceTruncated and LaplaceFolded.\<close>

definition truncated_check_inputs :: "'a laplace_tf_scheme \<Rightarrow> py_value \<Rightarrow> error + bool" where
  "truncated_check_inputs m value =
     bind_err (laplace_check_inputs m value) (\<lambda>_.
     bind_err (tf_check_inputs m value) (\<lambda>_. Inr True))"

definition truncated_get_bias :: "'a laplace_tf_scheme \<Rightarrow> py_value \<Rightarrow> error + fl" where
  "truncated_get_bias m value =
     bind_err (truncated_check_inputs m value) (\<lambda>_.
     bind_err (operand (self_sensitivity m)) (\<lambda>sensitivity.
     bind_err (operand (self_epsilon m)) (\<lambda>epsilon.
     bind_err (py_div sensitivity epsilon) (\<lambda>shape.
     bind_err (operand (self_lower_bound m)) (\<lambda>lower.
     bind_err (operand (self_upper_bound m)) (\<lambda>upper.
     bind_err (as_float value) (\<lambda>v.
     bind_err (py_div (lower - v) shape) (\<lambda>a.
     bind_err (py_div (v - upper) shape) (\<lambda>b.
       Inr (shape / Fin 2 * (fl_exp a - fl_exp b)))))))))))"

definition truncated_get_variance :: "'a laplace_tf_scheme \<Rightarrow> py_value \<Rightarrow> error + fl" where
  "truncated_get_variance m value =
     bind_err (truncated_check_inputs m value) (\<lambda>_.
     bind_err (operand (self_sensitivity m)) (\<lambda>sensitivity.
     bind_err (operand (self_epsilon m)) (\<lambda>epsilon.
     bind_err (py_div sensitivity epsilon) (\<lambda>shape.
     bind_err (operand (self_lower_bound m)) (\<lambda>lower.
     bind_err (operand (self_upper_bound m)) (\<lambda>upper.
     bind_err (as_float value) (\<lambda>v.
     bind_err (py_div (lower - v) shape) (\<lambda>a.
     bind_err (py_div (v - upper) shape) (\<lambda>b.
       let variance = fl_sq v + shape * (lower * fl_exp a - upper * fl_exp b);
           variance = variance + fl_sq shape * (Fin 2 - fl_exp a - fl_exp b)
       in bind_err (truncated_get_bias m value) (\<lambda>bias.
            Inr (variance - fl_sq (bias + v))))))))))))"

text \<open>
  \<open>_truncate\<close> and \<open>_fold\<close> belong to the mixin and are not in the module: they are
  parameters of the two \<open>randomise\<close>.
\<close>

definition truncated_randomise ::
  "('a laplace_tf_scheme \<Rightarrow> fl \<Rightarrow> error + fl) \<Rightarrow> 'a laplace_tf_scheme \<Rightarrow> py_value \<Rightarrow> fl
     \<Rightarrow> error + fl" where
  "truncated_randomise self_truncate m value u =
     bind_err (tf_check_inputs m value) (\<lambda>_.
     bind_err (laplace_randomise_via truncated_check_inputs m value u) (\<lambda>noisy_value.
       self_truncate m noisy_value))"

definition folded_get_bias :: "'a laplace_tf_scheme \<Rightarrow> py_value \<Rightarrow> error + fl" where
  "folded_get_bias m value =
     bind_err (truncated_check_inputs m value) (\<lambda>_.
     bind_err (operand (self_sensitivity m)) (\<lambda>sensitivity.
     bind_err (operand (self_epsilon m)) (\<lambda>epsilon.
     bind_err (py_div sensitivity epsilon) (\<lambda>shape.
     bind_err (operand (self_lower_bound m)) (\<lambda>lower.
     bind_err (operand (self_upper_bound m)) (\<lambda>upper.
     bind_err (as_float value) (\<lambda>v.
     bind_err (py_div (lower + upper - Fin 2 * v) shape) (\<lambda>a.
       let bias = shape * (fl_exp a - Fin 1)
       in bind_err (py_div (lower - v) shape) (\<lambda>b.
          bind_err (py_div (upper - v) shape) (\<lambda>c.
            Inr (bias / (fl_exp b + fl_exp c))))))))))))"

text \<open>The body of \<open>LaplaceFolded.get_variance\<close> is \<open>pass\<close>: the call returns \<open>None\<close>.\<close>

definition folded_get_variance :: "'a laplace_tf_scheme \<Rightarrow> py_value \<Rightarrow> error + fl option" where
  "folded_get_variance m value = Inr None"

definition folded_randomise ::
  "('a laplace_tf_scheme \<Rightarrow> fl \<Rightarrow> error + fl) \<Rightarrow> 'a laplace_tf_scheme \<Rightarrow> py_value \<Rightarrow> fl
     \<Rightarrow> error + fl" where
  "folded_randomise self_fold m value u =
     bind_err (tf_check_inputs m value) (\<lambda>_.
     bind_err (laplace_randomise_via truncated_check_inputs m value u) (\<lambda>noisy_value.
       self_fold m noisy_value))"

section \<open>LaplaceBoundedDomain\<close>

record laplace_bounded_domain = laplace_tf +
  self_scale :: "fl option"

text \<open>The two local functions of \<open>_find_scale\<close>; \<open>delta_q\<close> is the sensitivity.\<close>

definition find_scale_delta_c :: "fl \<Rightarrow> fl \<Rightarrow> fl \<Rightarrow> fl" where
  "find_scale_delta_c delta_q diam shape =
     (if fl_eq shape (Fin 0) then Fin 2
      else (Fin 2 - fl_exp ((- delta_q) / shape) - fl_exp ((- (diam - delta_q)) / shape))
           / (Fin 1 - fl_exp ((- diam) / shape)))"

definition find_scale_f :: "fl \<Rightarrow> fl \<Rightarrow> fl \<Rightarrow> fl \<Rightarrow> fl \<Rightarrow> fl" where
  "find_scale_f eps delta delta_q diam shape =
     delta_q / (eps - fl_log (find_scale_delta_c delta_q diam shape) - fl_log (Fin 1 - delta))"

text \<open>
  The \<open>while\<close> loop of \<open>_find_scale\<close>. It stops when the interval no longer shrinks; a
  run that never stops is \<open>None\<close>. The float loop stops when rounding puts the midpoint
  on an end of the interval. Over the exact reals of this model the interval halves for
  ever unless a midpoint is exactly a fixed point of \<open>f\<close>, so the model returns only where
  the loop body never runs, or runs onto an exact fixed point, or meets not-a-number.
\<close>

partial_function (option) find_scale_loop :: "(fl \<Rightarrow> fl) \<Rightarrow> fl \<Rightarrow> fl \<Rightarrow> fl \<Rightarrow> fl option" where
  "find_scale_loop f left right old_interval_size =
     (if right - left < old_interval_size then
        (let old_interval_size' = right - left;
             middle = (right + left) / Fin 2;
             left' = (if middle \<le> f middle then middle else left);
             right' = (if f middle \<le> middle then middle else right)
         in find_scale_loop f left' right' old_interval_size')
      else Some ((right + left) / Fin 2))"

text \<open>
  The variables \<open>left\<close>, \<open>right\<close> and \<open>old_interval_size\<close> after at most \<open>n\<close> rounds of the
  loop: what a run has computed so far, whether or not it ever stops.
\<close>

fun find_scale_steps :: "nat \<Rightarrow> (fl \<Rightarrow> fl) \<Rightarrow> fl \<Rightarrow> fl \<Rightarrow> fl \<Rightarrow> fl \<times> fl \<times> fl" where
  "find_scale_steps 0 f left right old_interval_size = (left, right, old_interval_size)"
| "find_scale_steps (Suc n) f left right old_interval_size =
     (if right - left < old_interval_size then
        (let old_interval_size' = right - left;
             middle = (right + left) / Fin 2;
             left' = (if middle \<le> f middle then middle else left);
             right' = (if f middle \<le> middle then middle else right)
         in find_scale_steps n f left' right' old_interval_size')
      else (left, right, old_interval_size))"

definition find_scale :: "'a laplace_bounded_domain_scheme \<Rightarrow> (error + fl) option" where
  "find_scale m =
     (case bind_err (operand (self_epsilon m)) (\<lambda>eps.
           bind_err (operand (self_upper_bound m)) (\<lambda>upper.
           bind_err (operand (self_lower_bound m)) (\<lambda>lower.
           bind_err (operand (self_sensitivity m)) (\<lambda>delta_q.
             Inr (eps, upper - lower, delta_q))))) of
        Inl e \<Rightarrow> Some (Inl e)
      | Inr (eps, diam, delta_q) \<Rightarrow>
          (let delta = Fin 0;
               f = find_scale_f eps delta delta_q diam;
               left = delta_q / (eps - fl_log (Fin 1 - delta));
               right = f left;
               old_interval_size = (right - left) * Fin 2
           in map_option Inr (find_scale_loop f left right old_interval_size)))"

text \<open>\<open>_find_scale\<close> up to its first \<open>n\<close> rounds: the state of the loop then.\<close>

definition find_scale_state ::
  "nat \<Rightarrow> 'a laplace_bounded_domain_scheme \<Rightarrow> error + fl \<times> fl \<times> fl" where
  "find_scale_state n m =
     bind_err (operand (self_epsilon m)) (\<lambda>eps.
     bind_err (operand (self_upper_bound m)) (\<lambda>upper.
     bind_err (operand (self_lower_bound m)) (\<lambda>lower.
     bind_err (operand (self_sensitivity m)) (\<lambda>delta_q.
       let diam = upper - lower;
           delta = Fin 0;
           f = find_scale_f eps delta delta_q diam;
           left = delta_q / (eps - fl_log (Fin 1 - delta));
           right = f left;
           old_interval_size = (right - left) * Fin 2
       in Inr (find_scale_steps n f left right old_interval_size)))))"

text \<open>
  \<open>if self._scale is None: self._scale = self._find_scale()\<close>, the block that four
  methods share: \<open>None\<close> when the solver does not return, else what it raises or the
  object with the scale cached.
\<close>

definition ensure_scale ::
  "'a laplace_bounded_domain_scheme \<Rightarrow> (error + 'a laplace_bounded_domain_scheme) option" where
  "ensure_scale m =
     (case self_scale m of
        Some b \<Rightarrow> Some (Inr m)
      | None \<Rightarrow>
          (case find_scale m of
             None \<Rightarrow> None
           | Some (Inl e) \<Rightarrow> Some (Inl e)
           | Some (Inr b) \<Rightarrow> Some (Inr (m\<lparr>self_scale := Some b\<rparr>))))"

definition bd_cdf :: "'a laplace_bounded_domain_scheme \<Rightarrow> fl \<Rightarrow> error + fl" where
  "bd_cdf m value =
     bind_err (operand (self_scale m)) (\<lambda>scale.
       if fl_eq scale (Fin 0) then Inr (if value < Fin 0 then Fin 0 else Fin 1)
       else if value < Fin 0 then Inr (Fin (1/2) * fl_exp (value / scale))
       else Inr (Fin 1 - Fin (1/2) * fl_exp ((- value) / scale)))"

text \<open>
  A method of LaplaceBoundedDomain returns \<open>None\<close> when the solver does not return, and
  else what the call raises or returns together with the object after the call.
\<close>

definition bd_get_effective_epsilon ::
  "'a laplace_bounded_domain_scheme
     \<Rightarrow> ((error + fl) \<times> 'a laplace_bounded_domain_scheme) option" where
  "bd_get_effective_epsilon m =
     (case ensure_scale m of
        None \<Rightarrow> None
      | Some (Inl e) \<Rightarrow> Some (Inl e, m)
      | Some (Inr m') \<Rightarrow>
          Some (bind_err (operand (self_sensitivity m')) (\<lambda>sensitivity.
                bind_err (operand (self_scale m')) (\<lambda>scale.
                  Inr (sensitivity / scale))), m'))"

definition bd_get_bias ::
  "'a laplace_bounded_domain_scheme \<Rightarrow> py_value
     \<Rightarrow> ((error + fl) \<times> 'a laplace_bounded_domain_scheme) option" where
  "bd_get_bias m value =
     (case truncated_check_inputs m value of
        Inl e \<Rightarrow> Some (Inl e, m)
      | Inr _ \<Rightarrow>
     (case ensure_scale m of
        None \<Rightarrow> None
      | Some (Inl e) \<Rightarrow> Some (Inl e, m)
      | Some (Inr m') \<Rightarrow>
          Some (bind_err (operand (self_scale m')) (\<lambda>scale.
                bind_err (operand (self_lower_bound m')) (\<lambda>lower.
                bind_err (operand (self_upper_bound m')) (\<lambda>upper.
                bind_err (as_float value) (\<lambda>v.
                  let bias = (scale - lower + v) / Fin 2 * fl_exp ((lower - v) / scale)
                             - (scale + upper - v) / Fin 2 * fl_exp ((v - upper) / scale)
                  in Inr (bias / (Fin 1 - fl_exp ((lower - v) / scale) / Fin 2
                                  - fl_exp ((v - upper) / scale) / Fin 2)))))), m')))"

definition bd_get_variance ::
  "'a laplace_bounded_domain_scheme \<Rightarrow> py_value
     \<Rightarrow> ((error + fl) \<times> 'a laplace_bounded_domain_scheme) option" where
  "bd_get_variance m value =
     (case truncated_check_inputs m value of
        Inl e \<Rightarrow> Some (Inl e, m)
      | Inr _ \<Rightarrow>
     (case ensure_scale m of
        None \<Rightarrow> None
      | Some (Inl e) \<Rightarrow> Some (Inl e, m)
      | Some (Inr m') \<Rightarrow>
     (case bind_err (operand (self_scale m')) (\<lambda>scale.
           bind_err (operand (self_lower_bound m')) (\<lambda>lower.
           bind_err (operand (self_upper_bound m')) (\<lambda>upper.
           bind_err (as_float value) (\<lambda>v.
             let variance = fl_sq v;
                 variance = variance
                   - (fl_exp ((lower - v) / scale) * fl_sq lower
                      + fl_exp ((v - upper) / scale) * fl_sq upper) / Fin 2;
                 variance = variance
                   + scale * (lower * fl_exp ((lower - v) / scale)
                              - upper * fl_exp ((v - upper) / scale));
                 variance = variance
                   + fl_sq scale * (Fin 2 - fl_exp ((lower - v) / scale)
                                    - fl_exp ((v - upper) / scale));
                 variance = variance
                   / (Fin 1 - (fl_exp ((- (v - lower)) / scale)
                               + fl_exp ((- (upper - v)) / scale)) / Fin 2)
             in Inr (variance, v))))) of
        Inl e \<Rightarrow> Some (Inl e, m')
      | Inr (variance, v) \<Rightarrow>
     (case bd_get_bias m' value of
        None \<Rightarrow> None
      | Some (Inl e, m'') \<Rightarrow> Some (Inl e, m'')
      | Some (Inr bias, m'') \<Rightarrow> Some (Inr (variance - fl_sq (bias + v)), m'')))))"

definition bd_randomise ::
  "'a laplace_bounded_domain_scheme \<Rightarrow> py_value \<Rightarrow> fl
     \<Rightarrow> ((error + fl) \<times> 'a laplace_bounded_domain_scheme) option" where
  "bd_randomise m value u =
     (case truncated_check_inputs m value of
        Inl e \<Rightarrow> Some (Inl e, m)
      | Inr _ \<Rightarrow>
     (case ensure_scale m of
        None \<Rightarrow> None
      | Some (Inl e) \<Rightarrow> Some (Inl e, m)
      | Some (Inr m') \<Rightarrow>
          Some (bind_err (as_float value) (\<lambda>v.
                bind_err (operand (self_upper_bound m')) (\<lambda>upper.
                bind_err (operand (self_lower_bound m')) (\<lambda>lower.
                let v = py_min v upper;
                    v = py_max v lower
                in bind_err (bd_cdf m' (upper - v)) (\<lambda>cdf_upper.
                   bind_err (bd_cdf m' (lower - v)) (\<lambda>cdf_lower.
                   bind_err (operand (self_scale m')) (\<lambda>scale.
                   let unif_rv = u;
                       unif_rv = unif_rv * (cdf_upper - cdf_lower);
                       unif_rv = unif_rv + cdf_lower;
                       unif_rv = unif_rv - Fin (1/2)
                   in Inr (v - scale * sgn unif_rv
                               * fl_log (Fin 1 - Fin 2 * abs unif_rv)))))))), m')))"

section \<open>LaplaceBoundedNoise\<close>

record laplace_bounded_noise = laplace +
  self_shape :: "fl option"
  self_noise_bound :: "fl option"

text \<open>
  \<open>set_epsilon_delta\<close> ends in \<open>DPMechanism.set_epsilon_delta\<close>, which is not in the
  module: it is the parameter \<open>dp_set_epsilon_delta\<close>.
\<close>

definition bn_set_epsilon_delta ::
  "('a laplace_bounded_noise_scheme \<Rightarrow> fl \<Rightarrow> fl
      \<Rightarrow> (error + 'a laplace_bounded_noise_scheme) \<times> 'a laplace_bounded_noise_scheme)
   \<Rightarrow> 'a laplace_bounded_noise_scheme \<Rightarrow> fl \<Rightarrow> fl
   \<Rightarrow> (error + 'a laplace_bounded_noise_scheme) \<times> 'a laplace_bounded_noise_scheme" where
  "bn_set_epsilon_delta dp_set_epsilon_delta m epsilon delta =
     (if fl_eq epsilon (Fin 0) then
        (Inl (ValueError ''Epsilon must be strictly positive. For zero epsilon, use :class:`.Uniform`.''), m)
      else if \<not> (Fin 0 < delta \<and> delta < Fin (1/2)) then
        (Inl (ValueError ''Delta must be strictly in (0,0.5). For zero delta, use :class:`.Laplace`.''), m)
      else dp_set_epsilon_delta m epsilon delta)"

text \<open>
  The divisor \<open>self._shape\<close> is a plain Python float, so the divisions of \<open>_cdf\<close> are
  Python's.
\<close>

definition bn_cdf :: "'a laplace_bounded_noise_scheme \<Rightarrow> fl \<Rightarrow> error + fl" where
  "bn_cdf m value =
     bind_err (operand (self_shape m)) (\<lambda>shape.
       if fl_eq shape (Fin 0) then Inr (if value < Fin 0 then Fin 0 else Fin 1)
       else if value < Fin 0 then
         bind_err (py_div value shape) (\<lambda>q. Inr (Fin (1/2) * fl_exp q))
       else bind_err (py_div (- value) shape) (\<lambda>q. Inr (Fin 1 - Fin (1/2) * fl_exp q)))"

definition bn_get_bias :: "'a laplace_bounded_noise_scheme \<Rightarrow> py_value \<Rightarrow> error + fl" where
  "bn_get_bias m value = Inr (Fin 0)"

text \<open>The body of \<open>LaplaceBoundedNoise.get_variance\<close> is \<open>pass\<close>: the call returns \<open>None\<close>.\<close>

definition bn_get_variance ::
  "'a laplace_bounded_noise_scheme \<Rightarrow> py_value \<Rightarrow> error + fl option" where
  "bn_get_variance m value = Inr None"

text \<open>
  The block of \<open>randomise\<close> that fills \<open>_shape\<close> and \<open>_noise_bound\<close> when one of them is
  \<open>None\<close>: the exception it raises, if any, and the object after it.
\<close>

definition bn_derive ::
  "'a laplace_bounded_noise_scheme \<Rightarrow> error option \<times> 'a laplace_bounded_noise_scheme" where
  "bn_derive m =
     (if self_shape m = None \<or> self_noise_bound m = None then
        (case bind_err (operand (self_sensitivity m)) (\<lambda>sensitivity.
              bind_err (operand (self_epsilon m)) (\<lambda>epsilon.
                py_div sensitivity epsilon)) of
           Inl e \<Rightarrow> (Some e, m)
         | Inr shape \<Rightarrow>
             (let m1 = m\<lparr>self_shape := Some shape\<rparr> in
              if fl_eq shape (Fin 0) then (None, m1\<lparr>self_noise_bound := Some (Fin (- 1))\<rparr>)
              else
                (case bind_err (operand (self_epsilon m1)) (\<lambda>epsilon.
                      bind_err (operand (self_delta m1)) (\<lambda>delta.
                        Inr (shape * fl_log (Fin 1 + (fl_exp epsilon - Fin 1) / Fin 2 / delta)))) of
                   Inl e \<Rightarrow> (Some e, m1)
                 | Inr noise_bound \<Rightarrow> (None, m1\<lparr>self_noise_bound := Some noise_bound\<rparr>))))
      else (None, m))"

definition bn_randomise ::
  "'a laplace_bounded_noise_scheme \<Rightarrow> py_value \<Rightarrow> fl
     \<Rightarrow> (error + fl) \<times> 'a laplace_bounded_noise_scheme" where
  "bn_randomise m value u =
     (case laplace_check_inputs m value of
        Inl e \<Rightarrow> (Inl e, m)
      | Inr _ \<Rightarrow>
     (case bn_derive m of
        (Some e, m') \<Rightarrow> (Inl e, m')
      | (None, m') \<Rightarrow>
          (bind_err (operand (self_noise_bound m')) (\<lambda>noise_bound.
           bind_err (bn_cdf m' noise_bound) (\<lambda>cdf_upper.
           bind_err (bn_cdf m' (- noise_bound)) (\<lambda>cdf_lower.
           bind_err (operand (self_shape m')) (\<lambda>shape.
           bind_err (as_float value) (\<lambda>v.
           let unif_rv = u;
               unif_rv = unif_rv * (cdf_upper - cdf_lower);
               unif_rv = unif_rv + cdf_lower;
               unif_rv = unif_rv - Fin (1/2)
           in Inr (v - shape * (sgn unif_rv * fl_log (Fin 1 - Fin 2 * abs unif_rv)))))))), m')))"

section \<open>Constructors and the vocabulary of the claims\<close>

text \<open>The other \<open>__init__\<close>: every attribute starts as \<open>None\<close>.\<close>

definition laplace_tf_init :: laplace_tf where
  "laplace_tf_init = \<lparr>self_epsilon = None, self_delta = None, self_sensitivity = None,
     self_lower_bound = None, self_upper_bound = None\<rparr>"

definition laplace_bounded_domain_init :: laplace_bounded_domain where
  "laplace_bounded_domain_init = \<lparr>self_epsilon = None, self_delta = None,
     self_sensitivity = None, self_lower_bound = None, self_upper_bound = None,
     self_scale = None\<rparr>"

definition laplace_bounded_noise_init :: laplace_bounded_noise where
  "laplace_bounded_noise_init = \<lparr>self_epsilon = None, self_delta = None,
     self_sensitivity = None, self_shape = None, self_noise_bound = None\<rparr>"

text \<open>
  The three "not configured" errors are the \<open>ValueError\<close>s of the readiness checks; a
  range error is any \<open>ValueError\<close>.
\<close>

definition not_configured :: "error \<Rightarrow> bool" where
  "not_configured e =
     (e = ValueError ''Epsilon must be set'' \<or> e = ValueError ''Sensitivity must be set''
      \<or> e = ValueError ''Upper and lower bounds must be set'')"

fun raises_not_configured :: "error + 'a \<Rightarrow> bool" where
  "raises_not_configured (Inl e) = not_configured e"
| "raises_not_configured (Inr x) = False"

fun is_range_error :: "error \<Rightarrow> bool" where
  "is_range_error (ValueError msg) = True"
| "is_range_error e = False"

text \<open>The scenario of the spec: sensitivity 1 and epsilon \<open>ln 3\<close>, no bounds.\<close>

definition scenario :: laplace where
  "scenario = \<lparr>self_epsilon = Some (Fin (ln 3)), self_delta = Some (Fin 0),
     self_sensitivity = Some (Fin 1)\<rparr>"

text \<open>
  Configured instances: bounds 0 and 1 with sensitivity 1, epsilon 1 or infinite.
\<close>

definition folded_unit :: laplace_tf where
  "folded_unit = \<lparr>self_epsilon = Some (Fin 1), self_delta = Some (Fin 0),
     self_sensitivity = Some (Fin 1), self_lower_bound = Some (Fin 0),
     self_upper_bound = Some (Fin 1)\<rparr>"

definition noise_unit :: laplace_bounded_noise where
  "noise_unit = \<lparr>self_epsilon = Some (Fin 1), self_delta = Some (Fin (1/10)),
     self_sensitivity = Some (Fin 1), self_shape = None, self_noise_bound = None\<rparr>"

definition unit_interval :: laplace_bounded_domain where
  "unit_interval = \<lparr>self_epsilon = Some (Fin 1), self_delta = Some (Fin 0),
     self_sensitivity = Some (Fin 1), self_lower_bound = Some (Fin 0),
     self_upper_bound = Some (Fin 1), self_scale = None\<rparr>"

definition infinite_epsilon :: laplace_bounded_domain where
  "infinite_epsilon = \<lparr>self_epsilon = Some PInf, self_delta = Some (Fin 0),
     self_sensitivity = Some (Fin 1), self_lower_bound = Some (Fin 0),
     self_upper_bound = Some (Fin 1), self_scale = None\<rparr>"

definition noise_infinite_epsilon :: laplace_bounded_noise where
  "noise_infinite_epsilon = \<lparr>self_epsilon = Some PInf, self_delta = Some (Fin (1/10)),
     self_sensitivity = Some (Fin 1), self_shape = None, self_noise_bound = None\<rparr>"

text \<open>
  A sensitivity above the diameter of the domain; an instance solved with epsilon 0.5
  (scale 2) and reconfigured to epsilon 1 and delta 0.25, its cached scale kept.
\<close>

definition wide_sensitivity :: laplace_bounded_domain where
  "wide_sensitivity = \<lparr>self_epsilon = Some (Fin 2), self_delta = Some (Fin 0),
     self_sensitivity = Some (Fin 2), self_lower_bound = Some (Fin 0),
     self_upper_bound = Some (Fin 1), self_scale = None\<rparr>"

definition half_epsilon :: laplace_bounded_domain where
  "half_epsilon = \<lparr>self_epsilon = Some (Fin (1/2)), self_delta = Some (Fin 0),
     self_sensitivity = Some (Fin 1), self_lower_bound = Some (Fin 0),
     self_upper_bound = Some (Fin 1), self_scale = None\<rparr>"

definition stale_cache :: laplace_bounded_domain where
  "stale_cache = \<lparr>self_epsilon = Some (Fin 1), self_delta = Some (Fin (1/4)),
     self_sensitivity = Some (Fin 1), self_lower_bound = Some (Fin 0),
     self_upper_bound = Some (Fin 1), self_scale = Some (Fin 2)\<rparr>"

text \<open>
  Instances with epsilon set, and the bounds where the variant has them, that lack the
  sensitivity; and one that has the sensitivity and lacks the bounds.
\<close>

definition no_sensitivity :: laplace where
  "no_sensitivity = \<lparr>self_epsilon = Some (Fin 1), self_delta = Some (Fin 0),
     self_sensitivity = None\<rparr>"

definition no_sensitivity_tf :: laplace_tf where
  "no_sensitivity_tf = \<lparr>self_epsilon = Some (Fin 1), self_delta = Some (Fin 0),
     self_sensitivity = None, self_lower_bound = Some (Fin 0), self_upper_bound = Some (Fin 1)\<rparr>"

definition no_bounds :: laplace_bounded_domain where
  "no_bounds = \<lparr>self_epsilon = Some (Fin 1), self_delta = Some (Fin 0),
     self_sensitivity = Some (Fin 1), self_lower_bound = None, self_upper_bound = None,
     self_scale = None\<rparr>"

definition no_sensitivity_domain :: laplace_bounded_domain where
  "no_sensitivity_domain = \<lparr>self_epsilon = Some (Fin 1), self_delta = Some (Fin 0),
     self_sensitivity = None, self_lower_bound = Some (Fin 0), self_upper_bound = Some (Fin 1),
     self_scale = None\<rparr>"

definition no_sensitivity_noise :: laplace_bounded_noise where
  "no_sensitivity_noise = \<lparr>self_epsilon = Some (Fin 1), self_delta = Some (Fin (1/10)),
     self_sensitivity = None, self_shape = None, self_noise_bound = None\<rparr>"

section \<open>Evaluation lemmas\<close>

lemma bind_err_simps [simp]:
  "bind_err (Inl e) f = Inl e" "bind_err (Inr x) f = f x"
  by (simp_all add: bind_err_def)

lemma operand_simps [simp]:
  "operand None = Inl (TypeError ''unsupported operand type(s)'')" "operand (Some x) = Inr x"
  by (simp_all add: operand_def)

lemma laplace_check_ok:
  "self_epsilon m = Some e \<Longrightarrow> self_sensitivity m = Some s \<Longrightarrow>
   laplace_check_inputs m (Number v) = Inr True"
  by (simp add: laplace_check_inputs_def dp_check_inputs_def)

lemma laplace_check_unset:
  "self_epsilon m = None \<or> self_sensitivity m = None \<Longrightarrow>
   \<exists>e. not_configured e \<and> laplace_check_inputs m (Number v) = Inl e"
  by (auto simp: laplace_check_inputs_def dp_check_inputs_def not_configured_def)

lemma truncated_check_ok:
  "self_epsilon d = Some e \<Longrightarrow> self_sensitivity d = Some s \<Longrightarrow> self_lower_bound d = Some l
   \<Longrightarrow> self_upper_bound d = Some u \<Longrightarrow> truncated_check_inputs d (Number v) = Inr True"
  by (simp add: truncated_check_inputs_def laplace_check_inputs_def dp_check_inputs_def
      tf_check_inputs_def)

lemma truncated_check_unset:
  "self_epsilon m = None \<or> self_sensitivity m = None \<or> self_lower_bound m = None
     \<or> self_upper_bound m = None \<Longrightarrow>
   \<exists>e. not_configured e \<and> truncated_check_inputs m (Number v) = Inl e"
  by (auto simp: truncated_check_inputs_def tf_check_inputs_def laplace_check_inputs_def
      dp_check_inputs_def not_configured_def)

lemma laplace_randomise_via_unset:
  assumes "\<exists>e. not_configured e \<and> chk m (Number v) = Inl e"
  shows "raises_not_configured (laplace_randomise_via chk m (Number v) u)"
  using assms by (auto simp: laplace_randomise_via_def)

lemma tf_check_cases:
  "tf_check_inputs t x = Inr True \<or> tf_check_inputs t x = Inl (ValueError ''Upper and lower bounds must be set'')"
  by (simp add: tf_check_inputs_def)

lemma tf_randomise_unset:
  assumes "self_epsilon t = None \<or> self_sensitivity t = None \<or> self_lower_bound t = None
     \<or> self_upper_bound t = None"
  shows "raises_not_configured
           (bind_err (tf_check_inputs t (Number v)) (\<lambda>_.
            bind_err (laplace_randomise_via truncated_check_inputs t (Number v) u) k))"
proof -
  from truncated_check_unset [OF assms, of v]
  obtain e where "not_configured e" "truncated_check_inputs t (Number v) = Inl e" by blast
  then show ?thesis
    using tf_check_cases [of t "Number v"]
    by (auto simp: laplace_randomise_via_def not_configured_def)
qed

lemma bind_err_unset:
  assumes "\<exists>e. not_configured e \<and> r = Inl e"
  shows "raises_not_configured (bind_err r k)"
  using assms by auto

lemma unit_interval_fields:
  "self_epsilon unit_interval = Some (Fin 1)" "self_sensitivity unit_interval = Some (Fin 1)"
  "self_lower_bound unit_interval = Some (Fin 0)" "self_upper_bound unit_interval = Some (Fin 1)"
  "self_scale unit_interval = None"
  by (simp_all add: unit_interval_def)

lemma infinite_epsilon_fields:
  "self_epsilon infinite_epsilon = Some PInf" "self_sensitivity infinite_epsilon = Some (Fin 1)"
  "self_lower_bound infinite_epsilon = Some (Fin 0)"
  "self_upper_bound infinite_epsilon = Some (Fin 1)" "self_scale infinite_epsilon = None"
  by (simp_all add: infinite_epsilon_def)

text \<open>
  The solver on the configured instances. With the sensitivity equal to the diameter
  \<open>_delta_c\<close> is 1 and \<open>_f\<close> is constant, with an infinite epsilon both ends start at 0:
  the interval is empty from the start and the loop body never runs.
\<close>

lemma find_scale_delta_c_unit: "find_scale_delta_c (Fin 1) (Fin 1) (Fin 1) = Fin 1"
  by (simp add: find_scale_delta_c_def fl_eq_def minus_fl_def)

lemma find_scale_f_unit: "find_scale_f (Fin 1) (Fin 0) (Fin 1) (Fin 1) (Fin 1) = Fin 1"
  by (simp add: find_scale_f_def find_scale_delta_c_unit minus_fl_def)

lemma find_scale_at_unit:
  assumes "self_epsilon d = Some (Fin 1)" "self_sensitivity d = Some (Fin 1)"
    "self_lower_bound d = Some (Fin 0)" "self_upper_bound d = Some (Fin 1)"
  shows "find_scale d = Some (Inr (Fin 1))"
  using assms
  by (simp add: find_scale_def Let_def find_scale_f_unit minus_fl_def find_scale_loop.simps)

lemma find_scale_unit_interval: "find_scale unit_interval = Some (Inr (Fin 1))"
  by (simp add: find_scale_at_unit unit_interval_fields)

lemma ensure_scale_unit_interval:
  "ensure_scale unit_interval = Some (Inr (unit_interval\<lparr>self_scale := Some (Fin 1)\<rparr>))"
  by (simp add: ensure_scale_def find_scale_unit_interval unit_interval_fields)

lemma find_scale_infinite_epsilon: "find_scale infinite_epsilon = Some (Inr (Fin 0))"
  by (simp add: find_scale_def infinite_epsilon_fields Let_def minus_fl_def find_scale_loop.simps
      find_scale_f_def find_scale_delta_c_def fl_eq_def)

lemma ensure_scale_infinite_epsilon:
  "ensure_scale infinite_epsilon = Some (Inr (infinite_epsilon\<lparr>self_scale := Some (Fin 0)\<rparr>))"
  by (simp add: ensure_scale_def find_scale_infinite_epsilon infinite_epsilon_fields)

lemma ensure_scale_keeps:
  assumes "ensure_scale d = Some (Inr d')"
  shows "self_lower_bound d' = self_lower_bound d" "self_upper_bound d' = self_upper_bound d"
    "self_sensitivity d' = self_sensitivity d" "self_epsilon d' = self_epsilon d"
  using assms by (auto simp: ensure_scale_def split: option.splits sum.splits)

lemma laplace_randomise_finite:
  assumes "self_sensitivity m = Some (Fin s)" "self_epsilon m = Some (Fin e)"
    "0 < e" "0 < u" "u < 1"
  shows "laplace_randomise m (Number (Fin v)) (Fin u)
           = Inr (Fin (v - s / e * sgn (u - 1 / 2) * ln (1 - 2 * \<bar>u - 1 / 2\<bar>)))"
proof -
  have "0 < 1 - 2 * \<bar>u - 1 / 2\<bar>" using assms by (simp add: abs_if)
  then show ?thesis
    using assms
    by (simp add: laplace_randomise_def laplace_randomise_via_def laplace_check_ok py_div_def
        minus_fl_def Let_def)
qed

lemma laplace_randomise_infinite:
  assumes "self_sensitivity m = Some (Fin s)" "self_epsilon m = Some PInf" "0 < u" "u < 1"
  shows "laplace_randomise m (Number (Fin v)) (Fin u) = Inr (Fin v)"
proof -
  have "0 < 1 - 2 * \<bar>u - 1 / 2\<bar>" using assms by (simp add: abs_if)
  then show ?thesis
    using assms
    by (simp add: laplace_randomise_def laplace_randomise_via_def laplace_check_ok py_div_def
        minus_fl_def Let_def)
qed

text \<open>\<open>get_effective_epsilon\<close> returns the sensitivity over the cached or solved scale.\<close>

lemma bd_get_effective_epsilon_value:
  assumes "ensure_scale d = Some (Inr d')" "self_scale d' = Some b" "self_sensitivity d = Some s"
  shows "bd_get_effective_epsilon d = Some (Inr (s / b), d')"
  using assms ensure_scale_keeps(3) [OF assms(1)]
  by (simp add: bd_get_effective_epsilon_def)

section \<open>The conditional Laplace distribution\<close>

text \<open>
  The inverse of the Laplace distribution function on a draw \<open>w\<close> between
  \<open>(p - 1) / 2\<close> and \<open>(1 - q) / 2\<close>: the noise \<open>- b * sgn w * ln (1 - 2 * |w|)\<close> lies
  between \<open>b * ln p\<close> and \<open>- b * ln q\<close>.
\<close>

lemma inverse_cdf_range:
  fixes b p q w :: real
  assumes "0 < b" "0 < p" "p \<le> 1" "0 < q" "q \<le> 1"
    and "(p - 1) / 2 \<le> w" "w \<le> (1 - q) / 2"
  shows "b * ln p \<le> - (b * sgn w * ln (1 - 2 * \<bar>w\<bar>))"
    and "- (b * sgn w * ln (1 - 2 * \<bar>w\<bar>)) \<le> - (b * ln q)"
    and "0 < 1 - 2 * \<bar>w\<bar>"
proof -
  have lnp: "b * ln p \<le> 0" and lnq: "b * ln q \<le> 0"
    using assms by (simp_all add: mult_nonneg_nonpos)
  show pos: "0 < 1 - 2 * \<bar>w\<bar>" using assms by (simp add: abs_if)
  have "1 - 2 * \<bar>w\<bar> \<le> 1" by simp
  then have "ln (1 - 2 * \<bar>w\<bar>) \<le> 0" using pos by simp
  then have le0: "b * ln (1 - 2 * \<bar>w\<bar>) \<le> 0" using assms by (simp add: mult_nonneg_nonpos)
  consider "w < 0" | "w = 0" | "0 < w" by linarith
  then show "b * ln p \<le> - (b * sgn w * ln (1 - 2 * \<bar>w\<bar>))"
  proof cases
    case 1
    then have "p \<le> 1 - 2 * \<bar>w\<bar>" using assms by simp
    then have "ln p \<le> ln (1 - 2 * \<bar>w\<bar>)" using assms by simp
    then have "b * ln p \<le> b * ln (1 - 2 * \<bar>w\<bar>)" using assms by simp
    with 1 show ?thesis by simp
  next
    case 2
    then show ?thesis using lnp by simp
  next
    case 3
    then show ?thesis using lnp le0 by simp
  qed
  consider "w < 0" | "w = 0" | "0 < w" by linarith
  then show "- (b * sgn w * ln (1 - 2 * \<bar>w\<bar>)) \<le> - (b * ln q)"
  proof cases
    case 1
    then show ?thesis using lnq le0 by simp
  next
    case 2
    then show ?thesis using lnq by simp
  next
    case 3
    then have "q \<le> 1 - 2 * \<bar>w\<bar>" using assms by simp
    then have "ln q \<le> ln (1 - 2 * \<bar>w\<bar>)" using assms by simp
    then have "b * ln q \<le> b * ln (1 - 2 * \<bar>w\<bar>)" using assms by simp
    with 3 show ?thesis by simp
  qed
qed





lemma bn_derive_infinite:
  assumes "self_sensitivity n = Some (Fin s)" "self_epsilon n = Some PInf"
    "self_shape n = None \<or> self_noise_bound n = None"
  shows "bn_derive n = (None, n\<lparr>self_shape := Some (Fin 0),
            self_noise_bound := Some (Fin (- 1))\<rparr>)"
  using assms by (auto simp: bn_derive_def py_div_def fl_eq_def Let_def)


lemma conditional_mass_pos:
  fixes b l u v :: real
  assumes "0 < b" "l < u" "l \<le> v" "v \<le> u"
  shows "0 < 1 - exp ((l - v) / b) / 2 - exp ((v - u) / b) / 2"
proof -
  have a: "exp ((l - v) / b) \<le> 1" using assms by (simp add: divide_nonpos_pos)
  have c: "exp ((v - u) / b) \<le> 1" using assms by (simp add: divide_nonpos_pos)
  have "l < v \<or> v < u" using assms by linarith
  then have "exp ((l - v) / b) < 1 \<or> exp ((v - u) / b) < 1"
    using assms by (auto simp: divide_neg_pos)
  with a c show ?thesis by linarith
qed

lemma bd_get_bias_unit_interval:
  "bd_get_bias unit_interval (Number (Fin 0)) =
     Some (Inr (Fin ((1 / 2 - exp (- 1)) / (1 / 2 - exp (- 1) / 2))),
           unit_interval\<lparr>self_scale := Some (Fin 1)\<rparr>)"
  by (simp add: bd_get_bias_def ensure_scale_unit_interval unit_interval_fields
      truncated_check_ok [OF unit_interval_fields(1,2,3,4)] minus_fl_def)

lemma bd_cdf_zero_scale:
  "self_scale d = Some (Fin 0) \<Longrightarrow> bd_cdf d x = Inr (if x < Fin 0 then Fin 0 else Fin 1)"
  by (simp add: bd_cdf_def fl_eq_def)

lemma bn_cdf_zero_shape:
  "self_shape n = Some (Fin 0) \<Longrightarrow> bn_cdf n x = Inr (if x < Fin 0 then Fin 0 else Fin 1)"
  by (simp add: bn_cdf_def fl_eq_def)

lemma truncated_check_passes:
  assumes "truncated_check_inputs d x = Inr True"
  shows "\<exists>v l u. x = Number v \<and> self_lower_bound d = Some l \<and> self_upper_bound d = Some u"
  using assms
  by (cases x)
     (auto simp: truncated_check_inputs_def laplace_check_inputs_def dp_check_inputs_def
       tf_check_inputs_def bind_err_def split: if_splits sum.splits)

lemma bd_randomise_zero_scale:
  assumes "truncated_check_inputs d (Number v) = Inr True" "ensure_scale d = Some (Inr d')"
    "self_scale d' = Some (Fin 0)"
  shows "\<exists>y. bd_randomise d (Number v) u = Some (Inr y, d')"
proof -
  from truncated_check_passes [OF assms(1)] obtain l h
    where "self_lower_bound d = Some l" "self_upper_bound d = Some h" by auto
  then have "self_lower_bound d' = Some l" "self_upper_bound d' = Some h"
    using ensure_scale_keeps(1,2) [OF assms(2)] by simp_all
  then show ?thesis
    using assms by (simp add: bd_randomise_def bd_cdf_zero_scale Let_def)
qed

lemma bn_derive_sets:
  assumes "bn_derive n = (None, n')"
  shows "self_noise_bound n' \<noteq> None"
  using assms
  by (auto simp: bn_derive_def Let_def split: if_splits sum.splits)

lemma bn_randomise_zero_shape:
  assumes "laplace_check_inputs n (Number v) = Inr True" "bn_derive n = (None, n')"
    "self_shape n' = Some (Fin 0)"
  shows "\<exists>y. bn_randomise n (Number v) u = (Inr y, n')"
proof -
  from bn_derive_sets [OF assms(2)] obtain b where "self_noise_bound n' = Some b" by auto
  then show ?thesis
    using assms by (simp add: bn_randomise_def bn_cdf_zero_shape Let_def)
qed

lemma laplace_randomise_extreme:
  assumes "self_sensitivity m = Some (Fin s)" "self_epsilon m = Some (Fin e)" "0 < s" "0 < e"
  shows "laplace_randomise m (Number (Fin w)) (Fin 0) = Inr NInf"
    and "laplace_randomise m (Number (Fin w)) (Fin 1) = Inr PInf"
proof -
  have "0 < s / e" using assms by simp
  then have q: "0 < s / e" "\<not> s / e < 0" "s / e \<noteq> 0" by linarith+
  show "laplace_randomise m (Number (Fin w)) (Fin 0) = Inr NInf"
    using assms q
    by (simp add: laplace_randomise_def laplace_randomise_via_def laplace_check_ok py_div_def
        minus_fl_def Let_def)
  show "laplace_randomise m (Number (Fin w)) (Fin 1) = Inr PInf"
    using assms q
    by (simp add: laplace_randomise_def laplace_randomise_via_def laplace_check_ok py_div_def
        minus_fl_def Let_def)
qed

lemma bn_derive_noise_infinite_epsilon:
  "bn_derive noise_infinite_epsilon
     = (None, noise_infinite_epsilon\<lparr>self_shape := Some (Fin 0),
                self_noise_bound := Some (Fin (- 1))\<rparr>)"
  by (rule bn_derive_infinite [of _ 1]) (simp_all add: noise_infinite_epsilon_def)

text \<open>
  With a finite positive scale, cached or solved, \<open>LaplaceBoundedDomain.randomise\<close> clamps
  the value into the domain and returns a point of the domain.
\<close>

lemma py_clamp_fin:
  "py_max (py_min (Fin v) (Fin h)) (Fin l) = Fin (max (min v h) l)"
  by (auto simp: py_min_def py_max_def min_def max_def)

lemma bd_cdf_finite:
  assumes "self_scale d = Some (Fin b)" "0 < b"
  shows "bd_cdf d (Fin x) = Inr (Fin (if x < 0 then 1 / 2 * exp (x / b)
                                      else 1 - 1 / 2 * exp (- x / b)))"
  using assms by (simp add: bd_cdf_def fl_eq_def minus_fl_def)

lemma bd_sample_real:
  fixes b l h c r :: real
  assumes "0 < b" "l \<le> c" "c \<le> h" "0 < r" "r < 1"
    and cu: "cu = (if h - c < 0 then 1 / 2 * exp ((h - c) / b) else 1 - 1 / 2 * exp (- (h - c) / b))"
    and cl: "cl = (if l - c < 0 then 1 / 2 * exp ((l - c) / b) else 1 - 1 / 2 * exp (- (l - c) / b))"
    and w: "w = r * (cu - cl) + cl - 1 / 2"
  shows "0 < 1 - 2 * \<bar>w\<bar>"
    and "l \<le> c - b * sgn w * ln (1 - 2 * \<bar>w\<bar>)"
    and "c - b * sgn w * ln (1 - 2 * \<bar>w\<bar>) \<le> h"
proof -
  define p where "p = exp ((l - c) / b)"
  define q where "q = exp (- (h - c) / b)"
  have p: "0 < p" "p \<le> 1" using assms by (simp_all add: p_def divide_nonpos_pos)
  have q: "0 < q" "q \<le> 1" using assms by (simp_all add: q_def divide_nonpos_pos)
  have cu': "cu = 1 - q / 2" using assms by (simp add: q_def)
  have cl': "cl = p / 2"
  proof (cases "l - c < 0")
    case True
    then show ?thesis using cl by (simp add: p_def)
  next
    case False
    then have "l - c = 0" using assms by linarith
    then show ?thesis using cl by (simp add: p_def)
  qed
  have m: "0 \<le> cu - cl" using p q cu' cl' by linarith
  define k where "k = r * (cu - cl)"
  have "r * (cu - cl) \<le> 1 * (cu - cl)" using m assms by (intro mult_right_mono) simp_all
  then have k1: "k \<le> cu - cl" by (simp add: k_def)
  have k0: "0 \<le> k" using m assms by (simp add: k_def)
  have wk: "w = k + cl - 1 / 2" using w by (simp add: k_def)
  have up: "w \<le> (1 - q) / 2" using wk k1 cu' cl' by simp
  have lo: "(p - 1) / 2 \<le> w" using wk k0 cl' by simp
  have lnp: "b * ln p = l - c" using assms by (simp add: p_def)
  have lnq: "b * ln q = - (h - c)" using assms by (simp add: q_def)
  note R = inverse_cdf_range [OF \<open>0 < b\<close> p q lo up]
  show "0 < 1 - 2 * \<bar>w\<bar>" by (rule R(3))
  show "l \<le> c - b * sgn w * ln (1 - 2 * \<bar>w\<bar>)" using R(1) lnp by simp
  show "c - b * sgn w * ln (1 - 2 * \<bar>w\<bar>) \<le> h" using R(2) lnq by simp
qed

lemma bd_randomise_in_domain:
  assumes "self_epsilon d = Some e" "self_sensitivity d = Some s"
    and "self_lower_bound d = Some (Fin l)" "self_upper_bound d = Some (Fin h)" "l < h"
    and "ensure_scale d = Some (Inr d')" "self_scale d' = Some (Fin b)" "0 < b"
    and "0 < r" "r < 1"
  shows "\<exists>y. bd_randomise d (Number (Fin v)) (Fin r) = Some (Inr (Fin y), d') \<and> l \<le> y \<and> y \<le> h"
proof -
  define c where "c = max (min v h) l"
  define cu where "cu = (if h - c < 0 then 1 / 2 * exp ((h - c) / b) else 1 - 1 / 2 * exp (- (h - c) / b))"
  define cl where "cl = (if l - c < 0 then 1 / 2 * exp ((l - c) / b) else 1 - 1 / 2 * exp (- (l - c) / b))"
  define w where "w = r * (cu - cl) + cl - 1 / 2"
  have c: "l \<le> c" "c \<le> h" using \<open>l < h\<close> by (simp_all add: c_def)
  have ck: "truncated_check_inputs d (Number (Fin v)) = Inr True"
    using assms by (simp add: truncated_check_ok)
  have lb: "self_lower_bound d' = Some (Fin l)" "self_upper_bound d' = Some (Fin h)"
    using assms ensure_scale_keeps [of d d'] by simp_all
  note S = bd_sample_real [OF \<open>0 < b\<close> c \<open>0 < r\<close> \<open>r < 1\<close> cu_def cl_def w_def]
  have clamp: "py_max (py_min (Fin v) (Fin h)) (Fin l) = Fin c"
    by (simp add: py_clamp_fin c_def)
  have cu_fl: "bd_cdf d' (Fin h - Fin c) = Inr (Fin cu)"
    using bd_cdf_finite [OF assms(7,8), of "h - c"] by (simp add: minus_fl_def cu_def)
  have cl_fl: "bd_cdf d' (Fin l - Fin c) = Inr (Fin cl)"
    using bd_cdf_finite [OF assms(7,8), of "l - c"] by (simp add: minus_fl_def cl_def)
  have w_fl: "Fin r * (Fin cu - Fin cl) + Fin cl - Fin (1/2) = Fin w"
    by (simp add: minus_fl_def w_def)
  have "bd_randomise d (Number (Fin v)) (Fin r)
          = Some (Inr (Fin (c - b * sgn w * ln (1 - 2 * \<bar>w\<bar>))), d')"
    using S(1) assms(6,7)
    apply (simp add: bd_randomise_def ck lb clamp cu_fl cl_fl w_fl Let_def)
    apply (simp add: minus_fl_def)
    done
  with S(2,3) show ?thesis by blast
qed

section \<open>The solver beyond the unit instance\<close>

text \<open>
  A run of \<open>_find_scale\<close> goes through the states of \<open>find_scale_steps\<close>, and returns as
  soon as one of them fails the test of the loop.
\<close>

lemma find_scale_loop_steps:
  "find_scale_loop f left right old =
     (case find_scale_steps n f left right old of (l', r', o') \<Rightarrow> find_scale_loop f l' r' o')"
proof (induction n arbitrary: left right old)
  case 0
  show ?case by simp
next
  case (Suc n)
  show ?case
  proof (cases "right - left < old")
    case True
    then show ?thesis
      by (subst find_scale_loop.simps) (simp add: Let_def Suc.IH [symmetric])
  next
    case False
    then show ?thesis by simp
  qed
qed

lemma find_scale_from_state:
  assumes "find_scale_state n m = Inr (l, r, o')" "\<not> r - l < o'"
  shows "find_scale m = Some (Inr ((r + l) / Fin 2))"
proof -
  from assms(1) obtain eps upper lower delta_q where
    a: "self_epsilon m = Some eps" "self_upper_bound m = Some upper"
       "self_lower_bound m = Some lower" "self_sensitivity m = Some delta_q"
    by (auto simp: find_scale_state_def bind_err_def operand_def split: option.splits)
  define f where "f = find_scale_f eps (Fin 0) delta_q (upper - lower)"
  define left where "left = delta_q / (eps - fl_log (Fin 1 - Fin 0))"
  have st: "find_scale_steps n f left (f left) ((f left - left) * Fin 2) = (l, r, o')"
    using assms(1) a by (simp add: find_scale_state_def Let_def f_def left_def)
  have "find_scale_loop f left (f left) ((f left - left) * Fin 2) = find_scale_loop f l r o'"
    using find_scale_loop_steps [of f left "f left" "(f left - left) * Fin 2" n] st by simp
  also have "\<dots> = Some ((r + l) / Fin 2)"
    using assms(2) by (subst find_scale_loop.simps) simp
  finally show ?thesis
    using a by (simp add: find_scale_def Let_def f_def left_def)
qed

text \<open>
  With sensitivity 2 on the domain \<open>[0, 1]\<close> and epsilon 2 the left end is 1 and
  \<open>_delta_c(1) = (2 - exp(-2) - exp(1)) / (1 - exp(-1))\<close> is negative: its logarithm is
  not-a-number, and so are the right end, the interval size and the result.
\<close>

lemma exp_one_gt_two: "2 - exp (- 2 :: real) - exp 1 < 0"
proof -
  have "1 + (1::real) \<le> exp 1" by (rule exp_ge_add_one_self)
  moreover have "0 < exp (- 2 :: real)" by simp
  ultimately show ?thesis by linarith
qed

lemma wide_sensitivity_fields:
  "self_epsilon wide_sensitivity = Some (Fin 2)" "self_sensitivity wide_sensitivity = Some (Fin 2)"
  "self_lower_bound wide_sensitivity = Some (Fin 0)"
  "self_upper_bound wide_sensitivity = Some (Fin 1)" "self_scale wide_sensitivity = None"
  by (simp_all add: wide_sensitivity_def)

lemma find_scale_delta_c_wide: "fl_log (find_scale_delta_c (Fin 2) (Fin 1) (Fin 1)) = NaN"
proof -
  have d: "0 < 1 - exp (- 1 :: real)" by simp
  have "(2 - exp (- 2 :: real) - exp 1) / (1 - exp (- 1)) < 0"
    using exp_one_gt_two d by (simp add: divide_neg_pos)
  then have "\<not> 0 < (2 - exp (- 2 :: real) - exp 1) / (1 - exp (- 1))"
    and "(2 - exp (- 2 :: real) - exp 1) / (1 - exp (- 1)) \<noteq> 0" by linarith+
  then show ?thesis
    by (simp add: find_scale_delta_c_def fl_eq_def minus_fl_def)
qed

lemma find_scale_f_wide: "find_scale_f (Fin 2) (Fin 0) (Fin 2) (Fin 1) (Fin 1) = NaN"
  by (simp add: find_scale_f_def find_scale_delta_c_wide minus_fl_def)

lemma find_scale_wide_sensitivity: "find_scale wide_sensitivity = Some (Inr NaN)"
  by (simp add: find_scale_def wide_sensitivity_fields Let_def find_scale_f_wide minus_fl_def
      find_scale_loop.simps)

lemma plus_NaN_right: "x + NaN = (NaN :: fl)"
  by (cases x) simp_all

text \<open>
  With sensitivity 1 on \<open>[0, 1]\<close> and epsilon 0.5 the solver returns the scale 2; the
  instance \<open>stale_cache\<close> still holds it.
\<close>

lemma half_epsilon_fields:
  "self_epsilon half_epsilon = Some (Fin (1/2))" "self_sensitivity half_epsilon = Some (Fin 1)"
  "self_lower_bound half_epsilon = Some (Fin 0)" "self_upper_bound half_epsilon = Some (Fin 1)"
  "self_scale half_epsilon = None"
  by (simp_all add: half_epsilon_def)

lemma find_scale_f_half: "find_scale_f (Fin (1/2)) (Fin 0) (Fin 1) (Fin 1) (Fin 2) = Fin 2"
  by (simp add: find_scale_f_def find_scale_delta_c_def fl_eq_def minus_fl_def)

lemma find_scale_half_epsilon: "find_scale half_epsilon = Some (Inr (Fin 2))"
  by (simp add: find_scale_def half_epsilon_fields Let_def find_scale_f_half minus_fl_def
      find_scale_loop.simps)

lemma ensure_scale_half_epsilon:
  "ensure_scale half_epsilon = Some (Inr (half_epsilon\<lparr>self_scale := Some (Fin 2)\<rparr>))"
  by (simp add: ensure_scale_def find_scale_half_epsilon half_epsilon_fields)

lemma stale_cache_fields:
  "self_epsilon stale_cache = Some (Fin 1)" "self_sensitivity stale_cache = Some (Fin 1)"
  "self_lower_bound stale_cache = Some (Fin 0)" "self_upper_bound stale_cache = Some (Fin 1)"
  "self_scale stale_cache = Some (Fin 2)" "self_delta stale_cache = Some (Fin (1/4))"
  by (simp_all add: stale_cache_def)

section \<open>The claims\<close>

text \<open>
  C1. Laplace with a sensitivity \<open>s > 0\<close>, a finite value \<open>v\<close> and the injected draw \<open>u\<close>
  in \<open>(0, 1)\<close>. With a finite epsilon \<open>e > 0\<close>, \<open>randomise\<close> raises nothing and returns
  exactly \<open>v - (s / e) * sign(u - 0.5) * ln(1 - 2 * |u - 0.5|)\<close>, a function of \<open>v\<close>, \<open>s\<close>,
  \<open>e\<close> and \<open>u\<close> alone. With an infinite epsilon the scale \<open>s / e\<close> is 0 and it returns \<open>v\<close>.
\<close>

theorem laplace_randomise_formula:
  assumes "self_sensitivity m = Some (Fin s)" and "0 < s" and "0 < u" and "u < 1"
  shows "(self_epsilon m = Some (Fin e) \<and> 0 < e \<longrightarrow>
            laplace_randomise m (Number (Fin v)) (Fin u)
              = Inr (Fin (v - s / e * sgn (u - 1 / 2) * ln (1 - 2 * \<bar>u - 1 / 2\<bar>))))
       \<and> (self_epsilon m = Some PInf \<longrightarrow>
            laplace_randomise m (Number (Fin v)) (Fin u) = Inr (Fin v))"
  using assms laplace_randomise_finite [of m s e u v] laplace_randomise_infinite [of m s u v]
  by blast

text \<open>
  The scenario of the spec: sensitivity 1, epsilon \<open>ln 3\<close>, value 0 and draw 0.25 give
  \<open>scale * ln 0.5\<close> with \<open>scale = 1 / ln 3\<close>.
\<close>

theorem laplace_randomise_formula_witness:
  "laplace_randomise scenario (Number (Fin 0)) (Fin (1/4)) = Inr (Fin (1 / ln 3 * ln (1/2)))
   \<and> laplace_randomise (scenario\<lparr>self_epsilon := Some PInf\<rparr>) (Number (Fin 0)) (Fin (1/4))
       = Inr (Fin 0)"
  using laplace_randomise_formula [of scenario 1 "1/4" "ln 3" 0]
    laplace_randomise_formula [of "scenario\<lparr>self_epsilon := Some PInf\<rparr>" 1 "1/4" "ln 3" 0]
  by (simp add: scenario_def)

text \<open>
  C2. Failing input: bounds 0 and 1, sensitivity 2, epsilon 2, delta 0. The left end is
  \<open>2 / (2 - log 1) = 1\<close>, \<open>_delta_c(1)\<close> is negative and \<open>np.log\<close> of it is not-a-number, so
  the right end and the interval size are not-a-number, the test of the loop is false
  at once and \<open>_find_scale\<close> returns not-a-number. \<open>|f(b*) - b*| \<le> 1e-9\<close> does not hold
  of it, and \<open>get_effective_epsilon\<close> caches it and returns not-a-number.
\<close>

theorem find_scale_not_a_number:
  "find_scale wide_sensitivity = Some (Inr NaN)
   \<and> \<not> abs (find_scale_f (Fin 2) (Fin 0) (Fin 2) (Fin 1 - Fin 0) NaN - NaN) \<le> Fin (1 / 10 ^ 9)
   \<and> bd_get_effective_epsilon wide_sensitivity
       = Some (Inr NaN, wide_sensitivity\<lparr>self_scale := Some NaN\<rparr>)"
  by (simp add: find_scale_wide_sensitivity bd_get_effective_epsilon_def ensure_scale_def
      wide_sensitivity_fields find_scale_f_def minus_fl_def plus_NaN_right)

text \<open>
  C3 (amended). With a complete configuration, finite bounds \<open>l < u\<close>, a value \<open>v\<close> in
  \<open>[l, u]\<close> and a positive scale \<open>b\<close> (cached, or returned by the solver),
  \<open>LaplaceBoundedDomain.get_bias\<close> returns
  \<open>(b - l + v) / 2 * exp((l - v) / b) - (b + u - v) / 2 * exp((v - u) / b)\<close> divided by the
  conditional mass \<open>1 - exp((l - v) / b) / 2 - exp((v - u) / b) / 2\<close>: the mean of the
  Laplace noise conditioned on the domain, not the bias of LaplaceTruncated over the mass.
\<close>

theorem bd_get_bias_formula:
  assumes "self_epsilon d = Some e" "self_sensitivity d = Some s"
    and "self_lower_bound d = Some (Fin l)" "self_upper_bound d = Some (Fin u)"
    and "l < u" "l \<le> v" "v \<le> u"
    and "ensure_scale d = Some (Inr d')" "self_scale d' = Some (Fin b)" "0 < b"
  shows "bd_get_bias d (Number (Fin v)) =
    Some (Inr (Fin (((b - l + v) / 2 * exp ((l - v) / b) - (b + u - v) / 2 * exp ((v - u) / b))
                    / (1 - exp ((l - v) / b) / 2 - exp ((v - u) / b) / 2))), d')"
proof -
  have mass: "1 - exp ((l - v) / b) / 2 - exp ((v - u) / b) / 2 \<noteq> 0"
    using conditional_mass_pos [of b l u v] assms by simp
  have ck: "truncated_check_inputs d (Number (Fin v)) = Inr True"
    using assms by (simp add: truncated_check_ok)
  have lb: "self_lower_bound d' = Some (Fin l)" "self_upper_bound d' = Some (Fin u)"
    using assms ensure_scale_keeps [of d d'] by simp_all
  show ?thesis
    using mass \<open>0 < b\<close>
    by (simp add: bd_get_bias_def ck assms(8) assms(9) lb minus_fl_def Let_def)
qed

theorem bd_get_bias_formula_witness:
  "bd_get_bias unit_interval (Number (Fin 0)) =
     Some (Inr (Fin ((1 / 2 - exp (- 1)) / (1 / 2 - exp (- 1) / 2))),
           unit_interval\<lparr>self_scale := Some (Fin 1)\<rparr>)"
  using bd_get_bias_formula [of unit_interval "Fin 1" "Fin 1" 0 1 0
      "unit_interval\<lparr>self_scale := Some (Fin 1)\<rparr>" 1]
  by (simp add: unit_interval_fields ensure_scale_unit_interval)

text \<open>
  C3 as stated fails: with bounds 0 and 1, sensitivity 1 and epsilon 1 the solver returns
  the scale 1; at the value 0 the formula of the claim, \<open>s / 2 * (exp((l - v) / s) -
  exp((v - u) / s))\<close> over the conditional mass, is 1, and \<open>get_bias\<close> returns
  \<open>(1/2 - exp(-1)) / (1/2 - exp(-1) / 2)\<close>, which is not 1.
\<close>

theorem bd_get_bias_not_truncated_formula:
  "find_scale unit_interval = Some (Inr (Fin 1))
   \<and> map_option fst (bd_get_bias unit_interval (Number (Fin 0))) \<noteq>
      Some (Inr (Fin (1 / 2 * (exp ((0 - 0) / 1) - exp ((0 - 1) / 1))
                      / (1 - 1 / 2 * exp ((0 - 0) / 1) - 1 / 2 * exp ((0 - 1) / 1)))))"
proof -
  have pos: "0 < exp (- 1 :: real)" by simp
  have ne: "1 / 2 - exp (- 1 :: real) / 2 \<noteq> 0" by simp
  have "(1 / 2 - exp (- 1 :: real)) / (1 / 2 - exp (- 1) / 2) \<noteq> 1"
    using pos ne by (simp add: field_simps)
  moreover have "1 / 2 * (exp ((0 - 0) / 1) - exp ((0 - 1) / (1::real)))
                     / (1 - 1 / 2 * exp ((0 - 0) / 1) - 1 / 2 * exp ((0 - 1) / 1)) = (1::real)"
    using ne by (simp add: field_simps)
  ultimately have "map_option fst (bd_get_bias unit_interval (Number (Fin 0))) \<noteq>
      Some (Inr (Fin (1 / 2 * (exp ((0 - 0) / 1) - exp ((0 - 1) / 1))
                      / (1 - 1 / 2 * exp ((0 - 0) / 1) - 1 / 2 * exp ((0 - 1) / 1)))))"
    by (simp only: bd_get_bias_unit_interval) simp
  with find_scale_unit_interval show ?thesis by blast
qed

text \<open>
  C4. Failing input: bounds 0 and 1, sensitivity 1, epsilon infinite, value 0 (the lower
  bound). The solver returns the scale 0; both \<open>_cdf(upper - value)\<close> and \<open>_cdf(0)\<close> are
  1, the rescaled draw is 0.5 whatever the draw \<open>u\<close> is, \<open>log(0)\<close> is minus infinity
  and \<open>0 * (-inf)\<close> is not-a-number: \<open>randomise\<close> returns not-a-number, which is not in
  \<open>[lower, upper]\<close>. With a finite positive scale the result is in the domain
  (\<open>bd_randomise_in_domain\<close>).
\<close>

theorem bd_randomise_infinite_epsilon:
  "bd_randomise infinite_epsilon (Number (Fin 0)) (Fin u)
     = Some (Inr NaN, infinite_epsilon\<lparr>self_scale := Some (Fin 0)\<rparr>)
   \<and> \<not> (Fin 0 \<le> NaN \<and> NaN \<le> Fin 1)"
  by (simp add: bd_randomise_def ensure_scale_infinite_epsilon infinite_epsilon_fields
      truncated_check_ok [OF infinite_epsilon_fields(1,2,3,4)]
      bd_cdf_def fl_eq_def py_min_def py_max_def minus_fl_def Let_def)

text \<open>
  C5 (amended). With an incomplete configuration (sensitivity or epsilon unset, or a bound
  unset where the variant has bounds) and a numeric value, every operation that reads the
  configuration raises a "not configured" error and leaves the object as it was:
  \<open>randomise\<close> of all five variants, \<open>get_variance\<close> of Laplace, LaplaceTruncated and
  LaplaceBoundedDomain, \<open>get_bias\<close> of LaplaceTruncated, LaplaceFolded and
  LaplaceBoundedDomain. \<open>get_bias\<close> of Laplace and of LaplaceBoundedNoise, whose noise
  is symmetric, reads nothing, makes no check and returns 0.0.
\<close>

theorem incomplete_configuration:
  fixes m :: "'a laplace_scheme" and t :: "'b laplace_tf_scheme"
    and d :: "'c laplace_bounded_domain_scheme" and n :: "'d laplace_bounded_noise_scheme"
  assumes m: "self_epsilon m = None \<or> self_sensitivity m = None"
    and t: "self_epsilon t = None \<or> self_sensitivity t = None \<or> self_lower_bound t = None
            \<or> self_upper_bound t = None"
    and d: "self_epsilon d = None \<or> self_sensitivity d = None \<or> self_lower_bound d = None
            \<or> self_upper_bound d = None"
    and n: "self_epsilon n = None \<or> self_sensitivity n = None"
  shows "raises_not_configured (laplace_randomise m (Number v) u)
       \<and> raises_not_configured (laplace_get_variance m (Number v))
       \<and> laplace_get_bias m (Number v) = Inr (Fin 0)
       \<and> raises_not_configured (truncated_randomise self_truncate t (Number v) u)
       \<and> raises_not_configured (truncated_get_bias t (Number v))
       \<and> raises_not_configured (truncated_get_variance t (Number v))
       \<and> raises_not_configured (folded_randomise self_fold t (Number v) u)
       \<and> raises_not_configured (folded_get_bias t (Number v))
       \<and> (case bd_randomise d (Number v) u of
             Some (r, d') \<Rightarrow> raises_not_configured r \<and> d' = d | None \<Rightarrow> False)
       \<and> (case bd_get_bias d (Number v) of
             Some (r, d') \<Rightarrow> raises_not_configured r \<and> d' = d | None \<Rightarrow> False)
       \<and> (case bd_get_variance d (Number v) of
             Some (r, d') \<Rightarrow> raises_not_configured r \<and> d' = d | None \<Rightarrow> False)
       \<and> (case bn_randomise n (Number v) u of (r, n') \<Rightarrow> raises_not_configured r \<and> n' = n)
       \<and> bn_get_bias n (Number v) = Inr (Fin 0)"
proof -
  note cm = laplace_check_unset [OF m]
  note ct = truncated_check_unset [OF t]
  note cd = truncated_check_unset [OF d]
  note cn = laplace_check_unset [OF n]
  have 1: "raises_not_configured (laplace_randomise m (Number v) u)"
    unfolding laplace_randomise_def laplace_randomise_via_def by (rule bind_err_unset) (rule cm)
  have 2: "raises_not_configured (laplace_get_variance m (Number v))"
    unfolding laplace_get_variance_def by (rule bind_err_unset) (rule cm)
  have 3: "raises_not_configured (truncated_randomise self_truncate t (Number v) u)"
    unfolding truncated_randomise_def by (rule tf_randomise_unset [OF t])
  have 4: "raises_not_configured (truncated_get_bias t (Number v))"
    unfolding truncated_get_bias_def by (rule bind_err_unset) (rule ct)
  have 5: "raises_not_configured (truncated_get_variance t (Number v))"
    unfolding truncated_get_variance_def by (rule bind_err_unset) (rule ct)
  have 6: "raises_not_configured (folded_randomise self_fold t (Number v) u)"
    unfolding folded_randomise_def by (rule tf_randomise_unset [OF t])
  have 7: "raises_not_configured (folded_get_bias t (Number v))"
    unfolding folded_get_bias_def by (rule bind_err_unset) (rule ct)
  have 8: "case bd_randomise d (Number v) u of
             Some (r, d') \<Rightarrow> raises_not_configured r \<and> d' = d | None \<Rightarrow> False"
    using cd [of v] by (auto simp: bd_randomise_def)
  have 9: "case bd_get_bias d (Number v) of
             Some (r, d') \<Rightarrow> raises_not_configured r \<and> d' = d | None \<Rightarrow> False"
    using cd [of v] by (auto simp: bd_get_bias_def)
  have 10: "case bd_get_variance d (Number v) of
             Some (r, d') \<Rightarrow> raises_not_configured r \<and> d' = d | None \<Rightarrow> False"
    using cd [of v] by (auto simp: bd_get_variance_def)
  have 11: "case bn_randomise n (Number v) u of (r, n') \<Rightarrow> raises_not_configured r \<and> n' = n"
    using cn [of v] by (auto simp: bn_randomise_def)
  show ?thesis
    using 1 2 3 4 5 6 7 8 9 10 11
    by (simp add: laplace_get_bias_def bn_get_bias_def)
qed

text \<open>
  With epsilon set (and the bounds, where there are any) and no sensitivity, the error
  is that of the sensitivity check of \<open>Laplace.check_inputs\<close>; with the sensitivity set
  and no bounds, that of the bounds; on fresh instances, that of epsilon.
\<close>

theorem incomplete_configuration_witness:
  "laplace_randomise no_sensitivity (Number (Fin 5)) (Fin (1/2))
     = Inl (ValueError ''Sensitivity must be set'')
   \<and> laplace_get_variance no_sensitivity (Number (Fin 5))
     = Inl (ValueError ''Sensitivity must be set'')
   \<and> laplace_get_bias no_sensitivity (Number (Fin 5)) = Inr (Fin 0)
   \<and> truncated_randomise (\<lambda>t x. Inr x) no_sensitivity_tf (Number (Fin 5)) (Fin (1/2))
     = Inl (ValueError ''Sensitivity must be set'')
   \<and> truncated_get_bias no_sensitivity_tf (Number (Fin 5))
     = Inl (ValueError ''Sensitivity must be set'')
   \<and> truncated_get_variance no_sensitivity_tf (Number (Fin 5))
     = Inl (ValueError ''Sensitivity must be set'')
   \<and> folded_randomise (\<lambda>t x. Inr x) no_sensitivity_tf (Number (Fin 5)) (Fin (1/2))
     = Inl (ValueError ''Sensitivity must be set'')
   \<and> folded_get_bias no_sensitivity_tf (Number (Fin 5))
     = Inl (ValueError ''Sensitivity must be set'')
   \<and> bd_randomise no_bounds (Number (Fin 5)) (Fin (1/2))
     = Some (Inl (ValueError ''Upper and lower bounds must be set''), no_bounds)
   \<and> bd_get_bias no_bounds (Number (Fin 5))
     = Some (Inl (ValueError ''Upper and lower bounds must be set''), no_bounds)
   \<and> bd_get_variance no_bounds (Number (Fin 5))
     = Some (Inl (ValueError ''Upper and lower bounds must be set''), no_bounds)
   \<and> bn_randomise no_sensitivity_noise (Number (Fin 5)) (Fin (1/2))
     = (Inl (ValueError ''Sensitivity must be set''), no_sensitivity_noise)
   \<and> bn_get_bias no_sensitivity_noise (Number (Fin 5)) = Inr (Fin 0)
   \<and> raises_not_configured (laplace_randomise laplace_init (Number (Fin 5)) (Fin (1/2)))
   \<and> raises_not_configured (folded_get_bias laplace_tf_init (Number (Fin 5)))"
proof -
  have h: "self_sensitivity no_sensitivity = None" "self_sensitivity no_sensitivity_tf = None"
    "self_lower_bound no_bounds = None" "self_sensitivity no_sensitivity_noise = None"
    "self_epsilon laplace_init = None" "self_epsilon laplace_tf_init = None"
    "self_epsilon laplace_bounded_domain_init = None"
    "self_epsilon laplace_bounded_noise_init = None"
    by (simp_all add: no_sensitivity_def no_sensitivity_tf_def no_bounds_def
        no_sensitivity_noise_def laplace_init_def laplace_tf_init_def
        laplace_bounded_domain_init_def laplace_bounded_noise_init_def)
  have ck: "laplace_check_inputs no_sensitivity (Number (Fin 5))
              = Inl (ValueError ''Sensitivity must be set'')"
    "laplace_check_inputs no_sensitivity (Number (Fin 0))
              = Inl (ValueError ''Sensitivity must be set'')"
    "tf_check_inputs no_sensitivity_tf (Number (Fin 5)) = Inr True"
    "truncated_check_inputs no_sensitivity_tf (Number (Fin 5))
              = Inl (ValueError ''Sensitivity must be set'')"
    "truncated_check_inputs no_bounds (Number (Fin 5))
              = Inl (ValueError ''Upper and lower bounds must be set'')"
    "laplace_check_inputs no_sensitivity_noise (Number (Fin 5))
              = Inl (ValueError ''Sensitivity must be set'')"
    by (simp_all add: truncated_check_inputs_def laplace_check_inputs_def dp_check_inputs_def
        tf_check_inputs_def no_sensitivity_def no_sensitivity_tf_def no_bounds_def
        no_sensitivity_noise_def)
  have e: "laplace_randomise no_sensitivity (Number (Fin 5)) (Fin (1/2))
     = Inl (ValueError ''Sensitivity must be set'')"
    "laplace_get_variance no_sensitivity (Number (Fin 5))
     = Inl (ValueError ''Sensitivity must be set'')"
    "truncated_randomise (\<lambda>t x. Inr x) no_sensitivity_tf (Number (Fin 5)) (Fin (1/2))
     = Inl (ValueError ''Sensitivity must be set'')"
    "truncated_get_bias no_sensitivity_tf (Number (Fin 5))
     = Inl (ValueError ''Sensitivity must be set'')"
    "truncated_get_variance no_sensitivity_tf (Number (Fin 5))
     = Inl (ValueError ''Sensitivity must be set'')"
    "folded_randomise (\<lambda>t x. Inr x) no_sensitivity_tf (Number (Fin 5)) (Fin (1/2))
     = Inl (ValueError ''Sensitivity must be set'')"
    "folded_get_bias no_sensitivity_tf (Number (Fin 5))
     = Inl (ValueError ''Sensitivity must be set'')"
    "bd_randomise no_bounds (Number (Fin 5)) (Fin (1/2))
     = Some (Inl (ValueError ''Upper and lower bounds must be set''), no_bounds)"
    "bd_get_bias no_bounds (Number (Fin 5))
     = Some (Inl (ValueError ''Upper and lower bounds must be set''), no_bounds)"
    "bd_get_variance no_bounds (Number (Fin 5))
     = Some (Inl (ValueError ''Upper and lower bounds must be set''), no_bounds)"
    "bn_randomise no_sensitivity_noise (Number (Fin 5)) (Fin (1/2))
     = (Inl (ValueError ''Sensitivity must be set''), no_sensitivity_noise)"
    by (simp_all add: laplace_randomise_def laplace_randomise_via_def laplace_get_variance_def
        truncated_randomise_def truncated_get_bias_def truncated_get_variance_def
        folded_randomise_def folded_get_bias_def bd_randomise_def bd_get_bias_def
        bd_get_variance_def bn_randomise_def ck)
  note A = incomplete_configuration [where m = no_sensitivity and t = no_sensitivity_tf
        and d = no_bounds and n = no_sensitivity_noise
        and v = "Fin 5" and u = "Fin (1/2)" and self_truncate = "\<lambda>t x. Inr x"
        and self_fold = "\<lambda>t x. Inr x"]
  note B = incomplete_configuration [where m = laplace_init and t = laplace_tf_init
        and d = laplace_bounded_domain_init and n = laplace_bounded_noise_init
        and v = "Fin 5" and u = "Fin (1/2)" and self_truncate = "\<lambda>t x. Inr x"
        and self_fold = "\<lambda>t x. Inr x"]
  have a: "laplace_get_bias no_sensitivity (Number (Fin 5)) = Inr (Fin 0)
      \<and> bn_get_bias no_sensitivity_noise (Number (Fin 5)) = Inr (Fin 0)"
    using A h by simp
  have b: "raises_not_configured (laplace_randomise laplace_init (Number (Fin 5)) (Fin (1/2)))
      \<and> raises_not_configured (folded_get_bias laplace_tf_init (Number (Fin 5)))"
    using B h by simp
  from a b e show ?thesis by simp
qed

text \<open>
  C5 as stated fails: on a fresh Laplace, nothing set, \<open>get_bias(5)\<close> returns 0.0 and
  raises nothing.
\<close>

theorem laplace_get_bias_unconfigured:
  "self_epsilon laplace_init = None \<and> self_sensitivity laplace_init = None
   \<and> laplace_get_bias laplace_init (Number (Fin 5)) = Inr (Fin 0)
   \<and> \<not> raises_not_configured (laplace_get_bias laplace_init (Number (Fin 5)))"
  by (simp add: laplace_init_def laplace_get_bias_def)

text \<open>
  C6. Failing input: LaplaceFolded with bounds 0 and 1, sensitivity 1 and epsilon 1, or
  LaplaceBoundedNoise with sensitivity 1, epsilon 1 and delta 0.1; \<open>get_variance(0)\<close>. The
  body of both methods is \<open>pass\<close>: the call reports no error and returns the \<open>None\<close>
  every Python function without a \<open>return\<close> gives, where the docstring promises a float.
\<close>

theorem get_variance_not_reported:
  "\<not> isl (folded_get_variance folded_unit (Number (Fin 0)))
   \<and> folded_get_variance folded_unit (Number (Fin 0)) = Inr None
   \<and> \<not> isl (bn_get_variance noise_unit (Number (Fin 0)))
   \<and> bn_get_variance noise_unit (Number (Fin 0)) = Inr None"
  by (simp add: folded_get_variance_def bn_get_variance_def)




text \<open>
  C8. With the scale (the shape) equal to 0, \<open>_cdf\<close> of LaplaceBoundedDomain and of
  LaplaceBoundedNoise is 0 on a negative argument and 1 otherwise. With a complete
  configuration and a scale (shape) of 0, cached or derived, \<open>randomise\<close> of both returns
  a float and raises nothing. At the draws 0 and 1 the argument of the logarithm is 0 and
  \<open>np.log\<close> gives minus infinity: with finite positive sensitivity and epsilon,
  \<open>Laplace.randomise\<close> returns minus infinity at the draw 0 and plus infinity at the draw
  1, and raises nothing.
\<close>

theorem zero_scale_limit:
  fixes d :: "'a laplace_bounded_domain_scheme" and n :: "'b laplace_bounded_noise_scheme"
    and m :: "'c laplace_scheme"
  shows "(self_scale d = Some (Fin 0) \<longrightarrow>
            bd_cdf d x = Inr (if x < Fin 0 then Fin 0 else Fin 1))
       \<and> (self_shape n = Some (Fin 0) \<longrightarrow>
            bn_cdf n x = Inr (if x < Fin 0 then Fin 0 else Fin 1))
       \<and> (truncated_check_inputs d (Number v) = Inr True \<and> ensure_scale d = Some (Inr d')
            \<and> self_scale d' = Some (Fin 0) \<longrightarrow>
            (\<exists>y. bd_randomise d (Number v) u = Some (Inr y, d')))
       \<and> (laplace_check_inputs n (Number v) = Inr True \<and> bn_derive n = (None, n')
            \<and> self_shape n' = Some (Fin 0) \<longrightarrow>
            (\<exists>y. bn_randomise n (Number v) u = (Inr y, n')))
       \<and> fl_log (Fin 1 - Fin 2 * abs (Fin 0 - Fin (1/2))) = NInf
       \<and> fl_log (Fin 1 - Fin 2 * abs (Fin 1 - Fin (1/2))) = NInf
       \<and> (self_sensitivity m = Some (Fin s) \<and> self_epsilon m = Some (Fin e) \<and> 0 < s \<and> 0 < e \<longrightarrow>
            laplace_randomise m (Number (Fin w)) (Fin 0) = Inr NInf
            \<and> laplace_randomise m (Number (Fin w)) (Fin 1) = Inr PInf)"
  using bd_cdf_zero_scale [of d x] bn_cdf_zero_shape [of n x]
    bd_randomise_zero_scale [of d v d' u] bn_randomise_zero_shape [of n v n' u]
    laplace_randomise_extreme [of m s e w]
  by (simp add: minus_fl_def)

theorem zero_scale_limit_witness:
  "bd_cdf (infinite_epsilon\<lparr>self_scale := Some (Fin 0)\<rparr>) (Fin (- 1)) = Inr (Fin 0)
   \<and> bd_cdf (infinite_epsilon\<lparr>self_scale := Some (Fin 0)\<rparr>) (Fin 0) = Inr (Fin 1)
   \<and> bn_cdf (noise_infinite_epsilon\<lparr>self_shape := Some (Fin 0),
                self_noise_bound := Some (Fin (- 1))\<rparr>) (Fin (- 1)) = Inr (Fin 0)
   \<and> (\<exists>y. bd_randomise infinite_epsilon (Number (Fin (1/2))) (Fin (1/4))
            = Some (Inr y, infinite_epsilon\<lparr>self_scale := Some (Fin 0)\<rparr>))
   \<and> (\<exists>y. bn_randomise noise_infinite_epsilon (Number (Fin 0)) (Fin (1/4))
            = (Inr y, noise_infinite_epsilon\<lparr>self_shape := Some (Fin 0),
                        self_noise_bound := Some (Fin (- 1))\<rparr>))
   \<and> laplace_randomise scenario (Number (Fin 0)) (Fin 0) = Inr NInf
   \<and> laplace_randomise scenario (Number (Fin 0)) (Fin 1) = Inr PInf"
proof -
  let ?d0 = "infinite_epsilon\<lparr>self_scale := Some (Fin 0)\<rparr>"
  let ?n0 = "noise_infinite_epsilon\<lparr>self_shape := Some (Fin 0),
                self_noise_bound := Some (Fin (- 1))\<rparr>"
  have ck: "truncated_check_inputs infinite_epsilon (Number (Fin (1/2))) = Inr True"
    by (rule truncated_check_ok [OF infinite_epsilon_fields(1,2,3,4)])
  have cn: "laplace_check_inputs noise_infinite_epsilon (Number (Fin 0)) = Inr True"
    by (simp add: laplace_check_ok noise_infinite_epsilon_def)
  have sc: "self_scale ?d0 = Some (Fin 0)" "self_shape ?n0 = Some (Fin 0)"
    "self_sensitivity scenario = Some (Fin 1)" "self_epsilon scenario = Some (Fin (ln 3))"
    by (simp_all add: scenario_def)
  note A = zero_scale_limit [where d = "?d0" and x = "Fin (- 1)" and n = "?n0" and v = "Fin 0"
      and u = "Fin (1/4)" and d' = "?d0" and n' = "?n0" and m = scenario and s = 1
      and e = "ln 3" and w = 0]
  note B = zero_scale_limit [where d = infinite_epsilon and x = "Fin 0" and n = "noise_infinite_epsilon"
      and v = "Fin 0" and u = "Fin (1/4)" and d' = "?d0" and n' = "?n0" and m = scenario
      and s = 1 and e = "ln 3" and w = 0]
  note C = zero_scale_limit [where d = "?d0" and x = "Fin 0" and n = "?n0" and v = "Fin (1/2)"
      and u = "Fin (1/4)" and d' = "?d0" and n' = "?n0" and m = scenario and s = 1
      and e = "ln 3" and w = 0]
  note D = zero_scale_limit [where d = infinite_epsilon and x = "Fin 0" and n = "noise_infinite_epsilon"
      and v = "Fin (1/2)" and u = "Fin (1/4)" and d' = "?d0" and n' = "?n0" and m = scenario
      and s = 1 and e = "ln 3" and w = 0]
  have 1: "bd_cdf ?d0 (Fin (- 1)) = Inr (Fin 0)" using A sc by simp
  have 2: "bd_cdf ?d0 (Fin 0) = Inr (Fin 1)" using C sc by simp
  have 3: "bn_cdf ?n0 (Fin (- 1)) = Inr (Fin 0)" using A sc by simp
  have 4: "\<exists>y. bd_randomise infinite_epsilon (Number (Fin (1/2))) (Fin (1/4)) = Some (Inr y, ?d0)"
    using D ck ensure_scale_infinite_epsilon sc by blast
  have 5: "\<exists>y. bn_randomise noise_infinite_epsilon (Number (Fin 0)) (Fin (1/4)) = (Inr y, ?n0)"
    using B cn bn_derive_noise_infinite_epsilon sc by blast
  have 6: "laplace_randomise scenario (Number (Fin 0)) (Fin 0) = Inr NInf
      \<and> laplace_randomise scenario (Number (Fin 0)) (Fin 1) = Inr PInf"
    using A sc by simp
  from 1 2 3 4 5 6 show ?thesis by blast
qed

text \<open>
  C9 (amended). \<open>set_sensitivity\<close> raises the range error for a float or an int that is
  \<open>\<le> 0\<close> and the type error for a non-number; it stores a float that is not \<open>\<le> 0\<close>, or
  the float of a positive int up to \<open>2 ^ 53\<close>, and returns the object itself; on an int
  beyond the range of a float, \<open>float\<close> raises \<open>OverflowError\<close>. Whatever the argument, a
  call that raises leaves the object unchanged and a call that returns, returns the
  object. \<open>set_epsilon_delta\<close> of LaplaceBoundedNoise raises a range error, the object
  unchanged, for every delta outside \<open>(0, 0.5)\<close> (not-a-number included). \<open>randomise\<close> of
  every variant on a numeric value raises a "not configured" error, the object
  unchanged, when the sensitivity is not set.
\<close>

theorem setters_and_readiness:
  fixes m :: "'a laplace_scheme" and t :: "'b laplace_tf_scheme"
    and d :: "'c laplace_bounded_domain_scheme" and n :: "'d laplace_bounded_noise_scheme"
  shows "(x \<le> Fin 0 \<longrightarrow>
            set_sensitivity m (FloatArg x)
              = (Inl (ValueError ''Sensitivity must be strictly positive''), m))
       \<and> (i \<le> 0 \<longrightarrow>
            set_sensitivity m (IntArg i)
              = (Inl (ValueError ''Sensitivity must be strictly positive''), m))
       \<and> set_sensitivity m (OtherArg s) = (Inl (TypeError ''Sensitivity must be numeric''), m)
       \<and> (\<not> x \<le> Fin 0 \<longrightarrow>
            set_sensitivity m (FloatArg x)
              = (Inr (m\<lparr>self_sensitivity := Some x\<rparr>), m\<lparr>self_sensitivity := Some x\<rparr>))
       \<and> (0 < i \<and> i \<le> 2 ^ 53 \<longrightarrow>
            set_sensitivity m (IntArg i)
              = (Inr (m\<lparr>self_sensitivity := Some (Fin (of_int i))\<rparr>),
                 m\<lparr>self_sensitivity := Some (Fin (of_int i))\<rparr>))
       \<and> (2 ^ 1024 - 2 ^ 970 \<le> i \<longrightarrow>
            set_sensitivity m (IntArg i)
              = (Inl (OverflowError ''int too large to convert to float''), m))
       \<and> (case set_sensitivity m a of (Inl e, m') \<Rightarrow> m' = m | (Inr r, m') \<Rightarrow> r = m')
       \<and> (\<not> (Fin 0 < delta \<and> delta < Fin (1/2)) \<longrightarrow>
            (case bn_set_epsilon_delta dp_set_epsilon_delta n epsilon delta of
               (Inl e, n') \<Rightarrow> is_range_error e \<and> n' = n
             | (Inr r, n') \<Rightarrow> False))
       \<and> (self_sensitivity m = None \<longrightarrow>
            raises_not_configured (laplace_randomise m (Number v) u))
       \<and> (self_sensitivity t = None \<longrightarrow>
            raises_not_configured (truncated_randomise self_truncate t (Number v) u)
            \<and> raises_not_configured (folded_randomise self_fold t (Number v) u))
       \<and> (self_sensitivity d = None \<longrightarrow>
            (case bd_randomise d (Number v) u of
               Some (r, d') \<Rightarrow> raises_not_configured r \<and> d' = d
             | None \<Rightarrow> False))
       \<and> (self_sensitivity n = None \<longrightarrow>
            (case bn_randomise n (Number v) u of (r, n') \<Rightarrow> raises_not_configured r \<and> n' = n))"
proof -
  have 1: "self_sensitivity m = None \<longrightarrow> raises_not_configured (laplace_randomise m (Number v) u)"
    using laplace_check_unset [of m v]
    by (auto simp: laplace_randomise_def intro: laplace_randomise_via_unset)
  have 2: "self_sensitivity t = None \<longrightarrow>
            raises_not_configured (truncated_randomise self_truncate t (Number v) u)
            \<and> raises_not_configured (folded_randomise self_fold t (Number v) u)"
    using tf_randomise_unset [of t v u "self_truncate t"] tf_randomise_unset [of t v u "self_fold t"]
    by (simp add: truncated_randomise_def folded_randomise_def)
  have 3: "self_sensitivity d = None \<longrightarrow>
            (case bd_randomise d (Number v) u of
               Some (r, d') \<Rightarrow> raises_not_configured r \<and> d' = d
             | None \<Rightarrow> False)"
    using truncated_check_unset [of d v] by (auto simp: bd_randomise_def)
  have 4: "self_sensitivity n = None \<longrightarrow>
            (case bn_randomise n (Number v) u of (r, n') \<Rightarrow> raises_not_configured r \<and> n' = n)"
    using laplace_check_unset [of n v] by (auto simp: bn_randomise_def)
  have 5: "(x \<le> Fin 0 \<longrightarrow>
            set_sensitivity m (FloatArg x)
              = (Inl (ValueError ''Sensitivity must be strictly positive''), m))
       \<and> (i \<le> 0 \<longrightarrow>
            set_sensitivity m (IntArg i)
              = (Inl (ValueError ''Sensitivity must be strictly positive''), m))
       \<and> set_sensitivity m (OtherArg s) = (Inl (TypeError ''Sensitivity must be numeric''), m)
       \<and> (\<not> x \<le> Fin 0 \<longrightarrow>
            set_sensitivity m (FloatArg x)
              = (Inr (m\<lparr>self_sensitivity := Some x\<rparr>), m\<lparr>self_sensitivity := Some x\<rparr>))"
    by (simp add: set_sensitivity_def Let_def)
  have q: "(2::int) ^ 53 < 2 ^ 1024 - 2 ^ 970"
    by simp
  have 6: "0 < i \<and> i \<le> 2 ^ 53 \<longrightarrow>
            set_sensitivity m (IntArg i)
              = (Inr (m\<lparr>self_sensitivity := Some (Fin (of_int i))\<rparr>),
                 m\<lparr>self_sensitivity := Some (Fin (of_int i))\<rparr>)"
  proof
    assume a: "0 < i \<and> i \<le> 2 ^ 53"
    with q have "\<not> 2 ^ 1024 - 2 ^ 970 \<le> i" by linarith
    with a show "set_sensitivity m (IntArg i)
              = (Inr (m\<lparr>self_sensitivity := Some (Fin (of_int i))\<rparr>),
                 m\<lparr>self_sensitivity := Some (Fin (of_int i))\<rparr>)"
      by (simp add: set_sensitivity_def Let_def abs_if)
  qed
  have p: "(0::int) < 2 ^ 1024 - 2 ^ 970"
    by simp
  have 7: "2 ^ 1024 - 2 ^ 970 \<le> i \<longrightarrow>
            set_sensitivity m (IntArg i)
              = (Inl (OverflowError ''int too large to convert to float''), m)"
  proof
    assume a: "2 ^ 1024 - 2 ^ 970 \<le> i"
    with p have "0 < i" by linarith
    with a show "set_sensitivity m (IntArg i)
              = (Inl (OverflowError ''int too large to convert to float''), m)"
      by (simp add: set_sensitivity_def abs_if)
  qed
  have 8: "\<not> (Fin 0 < delta \<and> delta < Fin (1/2)) \<longrightarrow>
            (case bn_set_epsilon_delta dp_set_epsilon_delta n epsilon delta of
               (Inl e, n') \<Rightarrow> is_range_error e \<and> n' = n
             | (Inr r, n') \<Rightarrow> False)"
    by (simp add: bn_set_epsilon_delta_def)
  have 9: "case set_sensitivity m a of (Inl e, m') \<Rightarrow> m' = m | (Inr r, m') \<Rightarrow> r = m'"
    by (simp add: set_sensitivity_def Let_def split: sum.splits)
  from 1 2 3 4 5 6 7 8 9 show ?thesis by blast
qed

theorem setters_and_readiness_witness:
  "set_sensitivity laplace_init (FloatArg (Fin (- 1)))
     = (Inl (ValueError ''Sensitivity must be strictly positive''), laplace_init)
   \<and> set_sensitivity laplace_init (IntArg (- 1))
     = (Inl (ValueError ''Sensitivity must be strictly positive''), laplace_init)
   \<and> set_sensitivity laplace_init (OtherArg ''a'')
     = (Inl (TypeError ''Sensitivity must be numeric''), laplace_init)
   \<and> set_sensitivity laplace_init (FloatArg (Fin (1/2)))
     = (Inr (laplace_init\<lparr>self_sensitivity := Some (Fin (1/2))\<rparr>),
        laplace_init\<lparr>self_sensitivity := Some (Fin (1/2))\<rparr>)
   \<and> set_sensitivity laplace_init (IntArg 1)
     = (Inr (laplace_init\<lparr>self_sensitivity := Some (Fin 1)\<rparr>),
        laplace_init\<lparr>self_sensitivity := Some (Fin 1)\<rparr>)
   \<and> set_sensitivity laplace_init (IntArg (2 ^ 1024))
     = (Inl (OverflowError ''int too large to convert to float''), laplace_init)
   \<and> fst (bn_set_epsilon_delta (\<lambda>n e d. (Inr n, n)) laplace_bounded_noise_init (Fin 1) (Fin (6/10)))
     = Inl (ValueError ''Delta must be strictly in (0,0.5). For zero delta, use :class:`.Laplace`.'')
   \<and> laplace_randomise no_sensitivity (Number (Fin 5)) (Fin (1/2))
     = Inl (ValueError ''Sensitivity must be set'')
   \<and> truncated_randomise (\<lambda>t x. Inr x) no_sensitivity_tf (Number (Fin 5)) (Fin (1/2))
     = Inl (ValueError ''Sensitivity must be set'')
   \<and> folded_randomise (\<lambda>t x. Inr x) no_sensitivity_tf (Number (Fin 5)) (Fin (1/2))
     = Inl (ValueError ''Sensitivity must be set'')
   \<and> bd_randomise no_sensitivity_domain (Number (Fin 5)) (Fin (1/2))
     = Some (Inl (ValueError ''Sensitivity must be set''), no_sensitivity_domain)
   \<and> bn_randomise no_sensitivity_noise (Number (Fin 5)) (Fin (1/2))
     = (Inl (ValueError ''Sensitivity must be set''), no_sensitivity_noise)"
proof -
  note A = setters_and_readiness [where x = "Fin (- 1)" and i = "- 1" and m = laplace_init
      and s = "''a''" and a = "IntArg 1"
      and n = laplace_bounded_noise_init and delta = "Fin (6/10)" and epsilon = "Fin 1"
      and dp_set_epsilon_delta = "\<lambda>n e d. (Inr n, n)" and v = "Fin 5" and u = "Fin (1/2)"
      and t = no_sensitivity_tf and d = no_sensitivity_domain
      and self_truncate = "\<lambda>t x. Inr x" and self_fold = "\<lambda>t x. Inr x"]
  note B = setters_and_readiness [where x = "Fin (1/2)" and i = 1 and m = laplace_init
      and s = "''a''" and a = "IntArg 1"
      and n = no_sensitivity_noise and delta = "Fin (6/10)" and epsilon = "Fin 1"
      and dp_set_epsilon_delta = "\<lambda>n e d. (Inr n, n)" and v = "Fin 5" and u = "Fin (1/2)"
      and t = no_sensitivity_tf and d = no_sensitivity_domain
      and self_truncate = "\<lambda>t x. Inr x" and self_fold = "\<lambda>t x. Inr x"]
  note C = setters_and_readiness [where x = "Fin (1/2)" and i = "2 ^ 1024" and m = no_sensitivity
      and s = "''a''" and a = "IntArg 1"
      and n = no_sensitivity_noise and delta = "Fin (6/10)" and epsilon = "Fin 1"
      and dp_set_epsilon_delta = "\<lambda>n e d. (Inr n, n)" and v = "Fin 5" and u = "Fin (1/2)"
      and t = no_sensitivity_tf and d = no_sensitivity_domain
      and self_truncate = "\<lambda>t x. Inr x" and self_fold = "\<lambda>t x. Inr x"]
  have h: "self_sensitivity no_sensitivity = None" "self_sensitivity no_sensitivity_tf = None"
    "self_sensitivity no_sensitivity_domain = None" "self_sensitivity no_sensitivity_noise = None"
    by (simp_all add: no_sensitivity_def no_sensitivity_tf_def no_sensitivity_domain_def
        no_sensitivity_noise_def)
  have a: "set_sensitivity laplace_init (FloatArg (Fin (- 1)))
     = (Inl (ValueError ''Sensitivity must be strictly positive''), laplace_init)
   \<and> set_sensitivity laplace_init (IntArg (- 1))
     = (Inl (ValueError ''Sensitivity must be strictly positive''), laplace_init)
   \<and> set_sensitivity laplace_init (OtherArg ''a'')
     = (Inl (TypeError ''Sensitivity must be numeric''), laplace_init)
   \<and> fst (bn_set_epsilon_delta (\<lambda>n e d. (Inr n, n)) laplace_bounded_noise_init (Fin 1) (Fin (6/10)))
     = Inl (ValueError ''Delta must be strictly in (0,0.5). For zero delta, use :class:`.Laplace`.'')"
    using A by (simp add: bn_set_epsilon_delta_def fl_eq_def)
  have b: "set_sensitivity laplace_init (FloatArg (Fin (1/2)))
     = (Inr (laplace_init\<lparr>self_sensitivity := Some (Fin (1/2))\<rparr>),
        laplace_init\<lparr>self_sensitivity := Some (Fin (1/2))\<rparr>)
   \<and> set_sensitivity laplace_init (IntArg 1)
     = (Inr (laplace_init\<lparr>self_sensitivity := Some (Fin 1)\<rparr>),
        laplace_init\<lparr>self_sensitivity := Some (Fin 1)\<rparr>)"
    using B by simp
  have c: "set_sensitivity laplace_init (IntArg (2 ^ 1024))
     = (Inl (OverflowError ''int too large to convert to float''), laplace_init)"
    by (simp add: set_sensitivity_def)
  have ck: "laplace_check_inputs no_sensitivity (Number (Fin 5))
              = Inl (ValueError ''Sensitivity must be set'')"
    "tf_check_inputs no_sensitivity_tf (Number (Fin 5)) = Inr True"
    "truncated_check_inputs no_sensitivity_tf (Number (Fin 5))
              = Inl (ValueError ''Sensitivity must be set'')"
    "truncated_check_inputs no_sensitivity_domain (Number (Fin 5))
              = Inl (ValueError ''Sensitivity must be set'')"
    "laplace_check_inputs no_sensitivity_noise (Number (Fin 5))
              = Inl (ValueError ''Sensitivity must be set'')"
    by (simp_all add: truncated_check_inputs_def laplace_check_inputs_def dp_check_inputs_def
        tf_check_inputs_def no_sensitivity_def no_sensitivity_tf_def no_sensitivity_domain_def
        no_sensitivity_noise_def)
  have e: "laplace_randomise no_sensitivity (Number (Fin 5)) (Fin (1/2))
     = Inl (ValueError ''Sensitivity must be set'')"
    "truncated_randomise (\<lambda>t x. Inr x) no_sensitivity_tf (Number (Fin 5)) (Fin (1/2))
     = Inl (ValueError ''Sensitivity must be set'')"
    "folded_randomise (\<lambda>t x. Inr x) no_sensitivity_tf (Number (Fin 5)) (Fin (1/2))
     = Inl (ValueError ''Sensitivity must be set'')"
    "bd_randomise no_sensitivity_domain (Number (Fin 5)) (Fin (1/2))
     = Some (Inl (ValueError ''Sensitivity must be set''), no_sensitivity_domain)"
    "bn_randomise no_sensitivity_noise (Number (Fin 5)) (Fin (1/2))
     = (Inl (ValueError ''Sensitivity must be set''), no_sensitivity_noise)"
    by (simp_all add: laplace_randomise_def laplace_randomise_via_def truncated_randomise_def
        folded_randomise_def bd_randomise_def bn_randomise_def ck)
  have r: "raises_not_configured (laplace_randomise no_sensitivity (Number (Fin 5)) (Fin (1/2)))"
    using C h by simp
  from a b c e r show ?thesis by simp
qed

text \<open>
  C9 as stated fails on a value that is not a number: with epsilon set and no
  sensitivity, \<open>randomise\<close> of Laplace on a string raises the \<open>TypeError\<close> of the value
  check, which \<open>check_inputs\<close> makes before it looks at the sensitivity.
\<close>

theorem randomise_not_a_number:
  "self_sensitivity no_sensitivity = None
   \<and> laplace_randomise no_sensitivity (Str ''a'') (Fin (1/2))
       = Inl (TypeError ''Value to be randomised must be a number'')
   \<and> \<not> raises_not_configured (laplace_randomise no_sensitivity (Str ''a'') (Fin (1/2)))"
  by (simp add: no_sensitivity_def laplace_randomise_def laplace_randomise_via_def
      laplace_check_inputs_def dp_check_inputs_def not_configured_def)

text \<open>
  C10 (amended). \<open>_find_scale\<close> reads the sensitivity, epsilon and the two bounds only:
  two instances that agree on these go through the same states of the loop, round after
  round, and return the same scale (or both run forever), whatever their delta. When
  their caches agree as well (both fresh, say), \<open>get_effective_epsilon\<close> returns the same
  value on both.
\<close>

theorem find_scale_ignores_delta:
  assumes "self_sensitivity d1 = self_sensitivity d2" "self_epsilon d1 = self_epsilon d2"
    "self_lower_bound d1 = self_lower_bound d2" "self_upper_bound d1 = self_upper_bound d2"
  shows "find_scale d1 = find_scale d2
       \<and> find_scale_state n d1 = find_scale_state n d2
       \<and> (self_scale d1 = self_scale d2 \<longrightarrow>
            map_option fst (bd_get_effective_epsilon d1)
              = map_option fst (bd_get_effective_epsilon d2))"
proof -
  have fs: "find_scale d1 = find_scale d2"
    using assms by (simp add: find_scale_def)
  have st: "find_scale_state n d1 = find_scale_state n d2"
    using assms by (simp add: find_scale_state_def)
  have "map_option fst (bd_get_effective_epsilon d1)
              = map_option fst (bd_get_effective_epsilon d2)" if "self_scale d1 = self_scale d2"
    using that fs assms
    by (auto simp: bd_get_effective_epsilon_def ensure_scale_def split: option.splits sum.splits)
  with fs st show ?thesis by simp
qed

theorem find_scale_ignores_delta_witness:
  "find_scale unit_interval = find_scale (unit_interval\<lparr>self_delta := Some (Fin (1/4))\<rparr>)
   \<and> find_scale unit_interval = Some (Inr (Fin 1))
   \<and> find_scale_state 3 unit_interval
       = find_scale_state 3 (unit_interval\<lparr>self_delta := Some (Fin (1/4))\<rparr>)
   \<and> find_scale_state 3 unit_interval = Inr (Fin 1, Fin 1, Fin 0)
   \<and> map_option fst (bd_get_effective_epsilon unit_interval)
       = map_option fst (bd_get_effective_epsilon (unit_interval\<lparr>self_delta := Some (Fin (1/4))\<rparr>))
   \<and> map_option fst (bd_get_effective_epsilon unit_interval) = Some (Inr (Fin 1))"
proof -
  have a: "map_option fst (bd_get_effective_epsilon unit_interval) = Some (Inr (Fin 1))"
    by (simp add: bd_get_effective_epsilon_def ensure_scale_unit_interval unit_interval_fields)
  have b: "find_scale_state 3 unit_interval = Inr (Fin 1, Fin 1, Fin 0)"
    by (simp add: find_scale_state_def unit_interval_fields Let_def find_scale_f_unit minus_fl_def
        numeral_3_eq_3)
  have T: "find_scale unit_interval = find_scale (unit_interval\<lparr>self_delta := Some (Fin (1/4))\<rparr>)
     \<and> find_scale_state 3 unit_interval
       = find_scale_state 3 (unit_interval\<lparr>self_delta := Some (Fin (1/4))\<rparr>)
     \<and> map_option fst (bd_get_effective_epsilon unit_interval)
       = map_option fst (bd_get_effective_epsilon (unit_interval\<lparr>self_delta := Some (Fin (1/4))\<rparr>))"
    using find_scale_ignores_delta [of unit_interval
        "unit_interval\<lparr>self_delta := Some (Fin (1/4))\<rparr>" 3]
    by simp
  from T a b find_scale_unit_interval show ?thesis by blast
qed

text \<open>
  C10 as stated fails for \<open>get_effective_epsilon\<close> when the caches differ. An instance
  with bounds 0 and 1 and sensitivity 1 solved under epsilon 0.5 caches the scale 2;
  set to epsilon 1 and delta 0.25 afterwards it still returns \<open>1 / 2\<close>, where a fresh
  instance with the same sensitivity, epsilon and bounds and delta 0 returns 1.
\<close>

theorem effective_epsilon_stale_cache:
  "self_sensitivity unit_interval = self_sensitivity stale_cache
   \<and> self_epsilon unit_interval = self_epsilon stale_cache
   \<and> self_lower_bound unit_interval = self_lower_bound stale_cache
   \<and> self_upper_bound unit_interval = self_upper_bound stale_cache
   \<and> self_delta unit_interval \<noteq> self_delta stale_cache
   \<and> map_option fst (bd_get_effective_epsilon unit_interval) = Some (Inr (Fin 1))
   \<and> map_option fst (bd_get_effective_epsilon stale_cache) = Some (Inr (Fin (1/2)))
   \<and> ensure_scale half_epsilon = Some (Inr (half_epsilon\<lparr>self_scale := Some (Fin 2)\<rparr>))
   \<and> stale_cache = half_epsilon\<lparr>self_scale := Some (Fin 2), self_epsilon := Some (Fin 1),
                                   self_delta := Some (Fin (1/4))\<rparr>"
  by (simp add: bd_get_effective_epsilon_def ensure_scale_unit_interval unit_interval_fields
      ensure_scale_half_epsilon stale_cache_fields)
     (simp add: ensure_scale_def stale_cache_def half_epsilon_def unit_interval_def)

end
